theory Spec2Isabelle
  imports Main "HOL-Library.AList" "HOL-Library.Sublist" "HOL-Library.Char_ord"
begin

section \<open>The Zotero connector server of papis-zotero (src/papis_zotero/server.py)\<close>

text \<open>
  The module has two parts: the function \<open>zotero_data_to_papis_data\<close>, which translates
  one item sent by the Zotero connector into the dictionary handed to papis, and the
  request handler \<open>PapisRequestHandler\<close>, whose method \<open>add\<close> serves
  \<open>POST /connector/saveItems\<close>. Both are embedded below, line by line. Python
  exceptions are values of \<open>py_error\<close>; a function that may raise returns a sum with
  \<open>Inl\<close> for the exception. Mutation is explicit: the mapper returns the dictionary it
  was given as it is after the call, the handler returns the world after the call.
  Calls of \<open>logger\<close> have no effect on control flow or on any value and are left out.
\<close>

subsection \<open>Decoded JSON values and Python dictionaries\<close>

text \<open>
  What \<open>json.loads\<close> returns: \<open>None\<close>, \<open>bool\<close>, \<open>int\<close>, \<open>float\<close>, \<open>str\<close>,
  \<open>list\<close> and \<open>dict\<close>. A float carries its Python \<open>repr\<close> (the only things the module
  does with a value of unknown shape are to test its truth value, to take its \<open>str\<close> and to
  pass it on). A dictionary is an association list in insertion order; Python's dictionaries
  have distinct keys, and \<open>map_of\<close> reads them.
\<close>

datatype json =
    JNull
  | JBool bool
  | JInt int
  | JFloat string
  | JStr string
  | JList "json list"
  | JObj "(string \<times> json) list"

type_synonym dict = "(string \<times> json) list"

datatype py_error =
    JSONDecodeError
  | UnicodeDecodeError
  | KeyError
  | TypeError
  | AttributeError
  | ValueError
  | HTTPError nat
  | URLError
  | TimeoutError
  | OverflowError
  | MemoryError
  | OtherError string

text \<open>\<open>d.get(k)\<close>: the value, or \<open>None\<close> when the key is absent.\<close>

definition dict_get :: "dict \<Rightarrow> string \<Rightarrow> json" where
  "dict_get d k = (case map_of d k of None \<Rightarrow> JNull | Some v \<Rightarrow> v)"

text \<open>\<open>d.pop(k, None)\<close>: the value (or \<open>None\<close>) and the dictionary without the key.\<close>

definition dict_pop :: "string \<Rightarrow> dict \<Rightarrow> json \<times> dict" where
  "dict_pop k d = (dict_get d k, AList.delete k d)"

text \<open>\<open>d[k] = v\<close>: replaces the value in place, or appends a new key at the end.\<close>

definition dict_set :: "string \<Rightarrow> json \<Rightarrow> dict \<Rightarrow> dict" where
  "dict_set k v d = AList.update k v d"

text \<open>\<open>data.update(item)\<close>: one assignment per entry of \<open>item\<close>, in its order.\<close>

definition dict_update :: "dict \<Rightarrow> dict \<Rightarrow> dict" where
  "dict_update data item = fold (\<lambda>(k, v) d. dict_set k v d) item data"

definition keys :: "dict \<Rightarrow> string set" where
  "keys d = fst ` set d"

subsection \<open>Python built-ins used by the module\<close>

text \<open>The truth value of an object, as \<open>if x\<close> and \<open>x and y\<close> test it.\<close>

fun truthy :: "json \<Rightarrow> bool" where
  "truthy JNull = False"
| "truthy (JBool b) = b"
| "truthy (JInt i) = (i \<noteq> 0)"
| "truthy (JFloat r) = (r \<noteq> ''0.0'' \<and> r \<noteq> ''-0.0'')"
| "truthy (JStr s) = (s \<noteq> [])"
| "truthy (JList xs) = (xs \<noteq> [])"
| "truthy (JObj d) = (d \<noteq> [])"

text \<open>\<open>len(x)\<close>: defined on strings, lists and dictionaries, a \<open>TypeError\<close> elsewhere.\<close>

fun py_len :: "json \<Rightarrow> py_error + nat" where
  "py_len (JStr s) = Inr (length s)"
| "py_len (JList xs) = Inr (length xs)"
| "py_len (JObj d) = Inr (length d)"
| "py_len _ = Inl TypeError"

text \<open>
  \<open>for x in v\<close>: the elements of a list, the keys of a dictionary, the characters of a
  string; a \<open>TypeError\<close> for an object that is not iterable.
\<close>

fun py_iter :: "json \<Rightarrow> py_error + json list" where
  "py_iter (JList xs) = Inr xs"
| "py_iter (JObj d) = Inr (map (\<lambda>(k, v). JStr k) d)"
| "py_iter (JStr s) = Inr (map (\<lambda>c. JStr [c]) s)"
| "py_iter _ = Inl TypeError"

text \<open>
  \<open>v[k]\<close> with a string \<open>k\<close>: the value of a dictionary, a \<open>KeyError\<close> when the key is
  absent, a \<open>TypeError\<close> for any other object.
\<close>

fun py_getitem :: "json \<Rightarrow> string \<Rightarrow> py_error + json" where
  "py_getitem (JObj d) k = (case map_of d k of None \<Rightarrow> Inl KeyError | Some v \<Rightarrow> Inr v)"
| "py_getitem _ k = Inl TypeError"

text \<open>\<open>sep.join(xs)\<close>: a \<open>TypeError\<close> when an element is not a string.\<close>

fun str_join :: "string \<Rightarrow> json list \<Rightarrow> py_error + string" where
  "str_join sep [] = Inr []"
| "str_join sep [x] = (case x of JStr s \<Rightarrow> Inr s | _ \<Rightarrow> Inl TypeError)"
| "str_join sep (x # y # ys) =
     (case x of
        JStr s \<Rightarrow> (case str_join sep (y # ys) of
                     Inl e \<Rightarrow> Inl e
                   | Inr r \<Rightarrow> Inr (s @ sep @ r))
      | _ \<Rightarrow> Inl TypeError)"

text \<open>Decimal digits of a natural number and of an integer, as \<open>str\<close> prints them.\<close>

fun str_nat :: "nat \<Rightarrow> string" where
  "str_nat n =
     (if n < 10 then [''0123456789'' ! n]
      else str_nat (n div 10) @ [''0123456789'' ! (n mod 10)])"

definition str_int :: "int \<Rightarrow> string" where
  "str_int i = (if i < 0 then CHR ''-'' # str_nat (nat (- i)) else str_nat (nat i))"

text \<open>
  Regular expressions, as far as the module uses them: a pattern is a sequence of pieces,
  each a character (or \<open>.\<close>) taken once or, with \<open>*\<close>, any number of times. Without the
  flag \<open>DOTALL\<close> the dot matches every character but the newline, and without
  \<open>IGNORECASE\<close> a letter matches itself only.
\<close>

datatype atom = AnyChar | Lit char

datatype piece = One atom | Many atom

fun atom_matches :: "atom \<Rightarrow> char \<Rightarrow> bool" where
  "atom_matches AnyChar c = (c \<noteq> CHR 0x0A)"
| "atom_matches (Lit a) c = (c = a)"

text \<open>
  \<open>re.match(pattern, s)\<close> as a truth value: the pattern has to match at the start of
  \<open>s\<close>, and what follows the match is not looked at. A starred piece is tried with every
  number of repetitions (the engine backtracks), so a match is found whenever one exists.
\<close>

fun re_match :: "piece list \<Rightarrow> string \<Rightarrow> bool" where
  "re_match [] s = True"
| "re_match (One a # ps) [] = False"
| "re_match (One a # ps) (c # cs) = (atom_matches a c \<and> re_match ps cs)"
| "re_match (Many a # ps) [] = re_match ps []"
| "re_match (Many a # ps) (c # cs) =
     (re_match ps (c # cs) \<or> (atom_matches a c \<and> re_match (Many a # ps) cs))"

text \<open>The pattern \<open>r".*pdf.*"\<close> of line 138.\<close>

definition pdf_pattern :: "piece list" where
  "pdf_pattern =
     [Many AnyChar, One (Lit CHR ''p''), One (Lit CHR ''d''), One (Lit CHR ''f''), Many AnyChar]"

text \<open>The lower-case form of an ASCII letter, to speak about matches in any case.\<close>

definition ascii_lower :: "char \<Rightarrow> char" where
  "ascii_lower c =
     (case map_of (zip ''ABCDEFGHIJKLMNOPQRSTUVWXYZ'' ''abcdefghijklmnopqrstuvwxyz'') c of
        Some l \<Rightarrow> l
      | None \<Rightarrow> c)"

subsection \<open>The collaborators\<close>

text \<open>
  Everything the module calls and does not define is a field of the environment:
  \<^item> \<open>field_map\<close>: the table \<open>ZOTERO_TO_PAPIS_FIELD_MAP\<close> of \<open>papis_zotero.sql\<close>, in
    the order of its keys (a dictionary: the keys are distinct);
  \<^item> \<open>doi_to_data\<close>: \<open>papis.crossref.doi_to_data\<close>, which returns a dictionary or raises;
  \<^item> \<open>py_repr\<close>: Python's \<open>repr\<close> of a list or dictionary, which is what \<open>str\<close> gives;
  \<^item> \<open>py_int\<close>: Python's \<open>int\<close> of a header string (\<open>None\<close>: it raises \<open>ValueError\<close>);
  \<^item> \<open>json_loads\<close>: \<open>json.loads(rawinput.decode("utf8"))\<close>, a value or an exception;
  \<^item> \<open>urlopen_read\<close>: \<open>urllib.request.urlopen(url).read()\<close>, the bytes or an exception;
  \<^item> \<open>mktemp\<close>: the name \<open>tempfile.mktemp(suffix=".pdf")\<close> returns at its n-th call;
  \<^item> \<open>is_pdf\<close>: \<open>papis_zotero.utils.is_pdf\<close> on a file with the given content;
  \<^item> \<open>add_run\<close>: \<open>papis.commands.add.run(files, data=...)\<close>, \<open>Some e\<close> when it raises;
  \<^item> \<open>ssize_t_max\<close>: the largest value of a C \<open>ssize_t\<close> on the platform
    (\<open>sys.maxsize\<close>);
  \<^item> \<open>can_allocate\<close>: whether the interpreter can allocate a \<open>bytes\<close> object of the
    given length.
\<close>

record env =
  field_map :: "(string \<times> string) list"
  doi_to_data :: "string \<Rightarrow> py_error + dict"
  py_repr :: "json \<Rightarrow> string"
  py_int :: "string \<Rightarrow> int option"
  json_loads :: "string \<Rightarrow> py_error + json"
  urlopen_read :: "json \<Rightarrow> py_error + string"
  mktemp :: "nat \<Rightarrow> string"
  is_pdf :: "string \<Rightarrow> bool"
  add_run :: "string list \<Rightarrow> dict \<Rightarrow> py_error option"
  ssize_t_max :: int
  can_allocate :: "nat \<Rightarrow> bool"

text \<open>\<open>str(x)\<close> of a decoded JSON value.\<close>

fun py_str :: "env \<Rightarrow> json \<Rightarrow> string" where
  "py_str env JNull = ''None''"
| "py_str env (JBool b) = (if b then ''True'' else ''False'')"
| "py_str env (JInt i) = str_int i"
| "py_str env (JFloat r) = r"
| "py_str env (JStr s) = s"
| "py_str env (JList xs) = py_repr env (JList xs)"
| "py_str env (JObj d) = py_repr env (JObj d)"

subsection \<open>The field mapper: \<open>zotero_data_to_papis_data\<close>\<close>

text \<open>
  Lines 41 to 44: for every key of the table, \<open>value = item.pop(key, None)\<close>, and
  \<open>data[ZOTERO_TO_PAPIS_FIELD_MAP[key]] = value\<close> when the value is not \<open>None\<close>. The state
  of the loop is the pair of \<open>item\<close> and \<open>data\<close>.
\<close>

fun translate :: "(string \<times> string) list \<Rightarrow> dict \<times> dict \<Rightarrow> dict \<times> dict" where
  "translate [] (item, data) = (item, data)"
| "translate ((key, papis_key) # rest) (item, data) =
     (let (value, item') = dict_pop key item
      in translate rest (item', if value \<noteq> JNull then dict_set papis_key value data else data))"

text \<open>Lines 48 and 49: \<open>if isinstance(tags, list): data["tags"] = " ".join(tags)\<close>.\<close>

fun set_tags :: "json \<Rightarrow> dict \<Rightarrow> py_error + dict" where
  "set_tags (JList ts) data =
     (case str_join '' '' ts of
        Inl e \<Rightarrow> Inl e
      | Inr s \<Rightarrow> Inr (dict_set ''tags'' (JStr s) data))"
| "set_tags _ data = Inr data"

text \<open>
  Lines 34 to 51, up to \<open>data.update(item)\<close>: the result (or the exception of \<open>join\<close>)
  and \<open>item\<close> as the pops have left it. All pops come before the first statement that may
  raise.
\<close>

definition map_fields :: "env \<Rightarrow> dict \<Rightarrow> (py_error + dict) \<times> dict" where
  "map_fields env item =
     (let (_, item1) = dict_pop ''id'' item;
          (_, item2) = dict_pop ''attachments'' item1;
          (item3, data1) = translate (field_map env) (item2, []);
          (tags, item4) = dict_pop ''tags'' item3
      in case set_tags tags data1 of
           Inl e \<Rightarrow> (Inl e, item4)
         | Inr data2 \<Rightarrow> (Inr (dict_update data2 item4), item4))"

text \<open>
  Lines 54 to 60: the lookup at Crossref when \<open>data.get("doi")\<close> is not \<open>None\<close>. The call
  is not inside a \<open>try\<close>, so an exception of \<open>doi_to_data\<close> leaves the function.
\<close>

definition enrich :: "env \<Rightarrow> dict \<Rightarrow> py_error + dict" where
  "enrich env data =
     (let doi = dict_get data ''doi''
      in if doi \<noteq> JNull then
           (case doi_to_data env (py_str env doi) of
              Inl e \<Rightarrow> Inl e
            | Inr crossref_data \<Rightarrow>
                (let (_, crossref_data') = dict_pop ''title'' crossref_data
                 in Inr (dict_update data crossref_data')))
         else Inr data)"

definition zotero_data_to_papis_data :: "env \<Rightarrow> dict \<Rightarrow> (py_error + dict) \<times> dict" where
  "zotero_data_to_papis_data env item =
     (case map_fields env item of
        (Inl e, item') \<Rightarrow> (Inl e, item')
      | (Inr data, item') \<Rightarrow> (enrich env data, item'))"

subsection \<open>The request handler: \<open>PapisRequestHandler.add\<close>\<close>

text \<open>
  The request as the handler reads it: the header \<open>content-length\<close> (\<open>None\<close> when the
  request has none) and the bytes the client sends after the headers.
\<close>

record request =
  content_length :: "string option"
  rfile :: string

text \<open>The calls the handler makes on its response, in order.\<close>

datatype out =
    SendResponse nat
  | SendHeader string string
  | EndHeaders
  | Write string

text \<open>
  What the handler changes outside itself: the arguments \<open>urlopen\<close> was called with, the
  temporary files written (path and content), the calls of \<open>papis.commands.add.run\<close>
  (files and data) and the response.
\<close>

record world =
  fetched :: "json list"
  tmpfiles :: "(string \<times> string) list"
  add_calls :: "(string list \<times> dict) list"
  wfile :: "out list"

definition ZOTERO_CONNECTOR_API_VERSION :: int where
  "ZOTERO_CONNECTOR_API_VERSION = 2"

definition ZOTERO_VERSION :: string where
  "ZOTERO_VERSION = ''5.0.25''"

definition set_zotero_headers :: "world \<Rightarrow> world" where
  "set_zotero_headers w =
     w\<lparr>wfile := wfile w @
         [SendHeader ''X-Zotero-Version'' ZOTERO_VERSION,
          SendHeader ''X-Zotero-Connector-API-Version'' (str_int ZOTERO_CONNECTOR_API_VERSION),
          EndHeaders]\<rparr>"

text \<open>
  \<open>self.rfile.read(length)\<close>: \<open>rfile\<close> is the buffered reader of the socket. The
  argument is converted to a C \<open>ssize_t\<close>, and an integer outside its range raises
  \<open>OverflowError\<close>; a length below -1 raises \<open>ValueError\<close>; -1 reads to the end of the
  stream; for any other length a buffer of that size is allocated (\<open>MemoryError\<close> when
  the allocation fails) and the call returns that many bytes, or fewer when the stream ends
  before.
\<close>

definition rfile_read :: "env \<Rightarrow> string \<Rightarrow> int \<Rightarrow> py_error + string" where
  "rfile_read env stream n =
     (if n < - ssize_t_max env - 1 \<or> ssize_t_max env < n then Inl OverflowError
      else if n < - 1 then Inl ValueError
      else if n = - 1 then Inr stream
      else if can_allocate env (nat n) then Inr (take (nat n) stream)
      else Inl MemoryError)"

text \<open>
  \<open>read_input\<close>, lines 76 to 78: \<open>self.headers["content-length"]\<close> is \<open>None\<close> for a
  missing header, and \<open>int(None)\<close> raises \<open>TypeError\<close>; \<open>int\<close> of a header that is not
  a number raises \<open>ValueError\<close>.
\<close>

definition read_input :: "env \<Rightarrow> request \<Rightarrow> py_error + string" where
  "read_input env req =
     (case content_length req of
        None \<Rightarrow> Inl TypeError
      | Some h \<Rightarrow>
          (case py_int env h of
             None \<Rightarrow> Inl ValueError
           | Some n \<Rightarrow> rfile_read env (rfile req) n))"

text \<open>\<open>except urllib.error.HTTPError\<close> catches this class and nothing else.\<close>

fun is_HTTPError :: "py_error \<Rightarrow> bool" where
  "is_HTTPError (HTTPError code) = True"
| "is_HTTPError _ = False"

text \<open>
  Lines 136 to 160, the body of \<open>for attachment in item.get("attachments")\<close>: the list
  \<open>files\<close> after the iteration, or the exception that leaves the loop.
\<close>

definition attachment_step ::
  "env \<Rightarrow> json \<Rightarrow> string list \<Rightarrow> world \<Rightarrow> (py_error + string list) \<times> world" where
  "attachment_step env attachment files w =
     (case attachment of
        JObj a \<Rightarrow>
          (let mime = py_str env (dict_get a ''mimeType'')
           in if re_match pdf_pattern mime then
                (let url = dict_get a ''url'';
                     w1 = w\<lparr>fetched := fetched w @ [url]\<rparr>
                 in case urlopen_read env url of
                      Inl e \<Rightarrow> if is_HTTPError e then (Inr files, w1) else (Inl e, w1)
                    | Inr pdfbuffer \<Rightarrow>
                        (let pdfpath = mktemp env (length (tmpfiles w1));
                             w2 = w1\<lparr>tmpfiles := tmpfiles w1 @ [(pdfpath, pdfbuffer)]\<rparr>
                         in if is_pdf env pdfbuffer then (Inr (files @ [pdfpath]), w2)
                            else (Inr files, w2)))
              else (Inr files, w))
      | _ \<Rightarrow> (Inl AttributeError, w))"

fun attachments_loop ::
  "env \<Rightarrow> json list \<Rightarrow> string list \<Rightarrow> world \<Rightarrow> (py_error + string list) \<times> world" where
  "attachments_loop env [] files w = (Inr files, w)"
| "attachments_loop env (attachment # rest) files w =
     (case attachment_step env attachment files w of
        (Inl e, w') \<Rightarrow> (Inl e, w')
      | (Inr files', w') \<Rightarrow> attachments_loop env rest files' w')"

text \<open>
  Line 134: \<open>item.get("attachments") and len(item.get("attachments")) > 0\<close>; \<open>and\<close> does
  not evaluate \<open>len\<close> when the first operand is false.
\<close>

definition has_attachments :: "json \<Rightarrow> py_error + bool" where
  "has_attachments atts =
     (if truthy atts then
        (case py_len atts of Inl e \<Rightarrow> Inl e | Inr n \<Rightarrow> Inr (n > 0))
      else Inr False)"

text \<open>Lines 133 to 166, the body of \<open>for item in data["items"]\<close>.\<close>

definition add_item :: "env \<Rightarrow> json \<Rightarrow> world \<Rightarrow> (py_error + unit) \<times> world" where
  "add_item env item w =
     (case item of
        JObj it \<Rightarrow>
          (case has_attachments (dict_get it ''attachments'') of
             Inl e \<Rightarrow> (Inl e, w)
           | Inr has \<Rightarrow>
               (case (if has then
                        (case py_iter (dict_get it ''attachments'') of
                           Inl e \<Rightarrow> (Inl e, w)
                         | Inr atts \<Rightarrow> attachments_loop env atts [] w)
                      else (Inr [], w)) of
                  (Inl e, w1) \<Rightarrow> (Inl e, w1)
                | (Inr files, w1) \<Rightarrow>
                    (case fst (zotero_data_to_papis_data env it) of
                       Inl e \<Rightarrow> (Inl e, w1)
                     | Inr papis_item \<Rightarrow>
                         (let w2 = w1\<lparr>add_calls := add_calls w1 @ [(files, papis_item)]\<rparr>
                          in case add_run env files papis_item of
                               Some e \<Rightarrow> (Inl e, w2)
                             | None \<Rightarrow> (Inr (), w2)))))
      | _ \<Rightarrow> (Inl AttributeError, w))"

fun items_loop :: "env \<Rightarrow> json list \<Rightarrow> world \<Rightarrow> (py_error + unit) \<times> world" where
  "items_loop env [] w = (Inr (), w)"
| "items_loop env (item # rest) w =
     (case add_item env item w of
        (Inl e, w') \<Rightarrow> (Inl e, w')
      | (Inr u, w') \<Rightarrow> items_loop env rest w')"

text \<open>
  \<open>add\<close>, lines 127 to 171. An exception leaves the method before \<open>send_response\<close>: the
  response is written only after the loop over the items has ended.
\<close>

definition add :: "env \<Rightarrow> request \<Rightarrow> world \<Rightarrow> (py_error + unit) \<times> world" where
  "add env req w =
     (case read_input env req of
        Inl e \<Rightarrow> (Inl e, w)
      | Inr rawinput \<Rightarrow>
          (case json_loads env rawinput of
             Inl e \<Rightarrow> (Inl e, w)
           | Inr data \<Rightarrow>
               (case py_getitem data ''items'' of
                  Inl e \<Rightarrow> (Inl e, w)
                | Inr its \<Rightarrow>
                    (case py_iter its of
                       Inl e \<Rightarrow> (Inl e, w)
                     | Inr items \<Rightarrow>
                         (case items_loop env items w of
                            (Inl e, w1) \<Rightarrow> (Inl e, w1)
                          | (Inr u, w1) \<Rightarrow>
                              (let w2 = w1\<lparr>wfile := wfile w1 @ [SendResponse 201]\<rparr>;
                                   w3 = set_zotero_headers w2
                               in (Inr (), w3\<lparr>wfile := wfile w3 @ [Write rawinput]\<rparr>)))))))"

subsection \<open>Notions used in the statements\<close>

text \<open>
  The entries of an item that the mapper neither pops nor translates: every key but
  \<open>id\<close>, \<open>attachments\<close>, \<open>tags\<close> and the keys of the table.
\<close>

definition leftover :: "env \<Rightarrow> dict \<Rightarrow> dict" where
  "leftover env item =
     filter (\<lambda>(k, v). k \<noteq> ''id'' \<and> k \<noteq> ''attachments'' \<and> k \<noteq> ''tags''
                       \<and> k \<notin> fst ` set (field_map env)) item"

text \<open>
  The Crossref lookup that takes place for an item, with its outcome: the call of line 56,
  made when the mapped data has a \<open>doi\<close> that is not \<open>None\<close>; \<open>None\<close> when no call is
  made.
\<close>

definition lookup_made :: "env \<Rightarrow> dict \<Rightarrow> (py_error + dict) option" where
  "lookup_made env item =
     (case fst (map_fields env item) of
        Inl e \<Rightarrow> None
      | Inr data \<Rightarrow>
          if dict_get data ''doi'' \<noteq> JNull
          then Some (doi_to_data env (py_str env (dict_get data ''doi'')))
          else None)"

text \<open>Strings joined by single spaces, as the specification words the result for tags.\<close>

fun space_joined :: "string list \<Rightarrow> string" where
  "space_joined [] = []"
| "space_joined [s] = s"
| "space_joined (s # t # ts) = s @ '' '' @ space_joined (t # ts)"

subsection \<open>A concrete environment\<close>

text \<open>
  The theorems below hold for every environment. For evaluation at concrete inputs the
  following one is used: a table with the Zotero keys \<open>abstractNote\<close>,
  \<open>publicationTitle\<close>, \<open>DOI\<close>, \<open>itemType\<close> and \<open>ISBN\<close>; a Crossref that knows one DOI
  and raises \<open>ValueError\<close> for every other; a network on which one URL serves a PDF,
  one serves HTML, one answers 403 and every other host is unreachable; a 64-bit
  platform that can allocate a gigabyte; four request bodies.
\<close>

definition example_field_map :: "(string \<times> string) list" where
  "example_field_map =
     [(''abstractNote'', ''abstract''),
      (''publicationTitle'', ''journal''),
      (''DOI'', ''doi''),
      (''itemType'', ''type''),
      (''ISBN'', ''isbn'')]"

definition example_body :: string where
  \<open>example_body = ''{"items":[{"title":"T","tags":["x"],"attachments":[]}]}''\<close>

definition example_data :: json where
  "example_data =
     JObj [(''items'', JList [JObj [(''title'', JStr ''T''),
                                    (''tags'', JList [JStr ''x'']),
                                    (''attachments'', JList [])]])]"

definition batch_body :: string where
  \<open>batch_body = ''{"items":[{"title":"A","attachments":[{"mimeType":"application/pdf","url":"http://unreachable.invalid/a.pdf"}]},{"title":"B"}]}''\<close>

definition batch_data :: json where
  "batch_data =
     JObj [(''items'',
            JList [JObj [(''title'', JStr ''A''),
                         (''attachments'',
                          JList [JObj [(''mimeType'', JStr ''application/pdf''),
                                       (''url'', JStr ''http://unreachable.invalid/a.pdf'')]])],
                   JObj [(''title'', JStr ''B'')]])]"

definition two_body :: string where
  \<open>two_body = ''{"items":[{"title":"A","attachments":[{"mimeType":"application/pdf","url":"http://example.org/a.pdf"}]},{"title":"B","tags":["x","y"]}]}''\<close>

definition two_data :: json where
  "two_data =
     JObj [(''items'',
            JList [JObj [(''title'', JStr ''A''),
                         (''attachments'',
                          JList [JObj [(''mimeType'', JStr ''application/pdf''),
                                       (''url'', JStr ''http://example.org/a.pdf'')]])],
                   JObj [(''title'', JStr ''B''),
                         (''tags'', JList [JStr ''x'', JStr ''y''])]])]"

text \<open>
  A body that is not a JSON text: \<open>NaN\<close> is not a value of the JSON grammar (RFC 8259
  has the literals \<open>true\<close>, \<open>false\<close> and \<open>null\<close> only, and its numbers are decimal).
  \<open>json.loads\<close> is called without \<open>parse_constant\<close> and accepts \<open>NaN\<close>, \<open>Infinity\<close>
  and \<open>-Infinity\<close>; it returns the float \<open>nan\<close> here.
\<close>

definition nan_body :: string where
  \<open>nan_body = ''{"items":[{"title":"T","impact":NaN}]}''\<close>

definition nan_data :: json where
  "nan_data =
     JObj [(''items'', JList [JObj [(''title'', JStr ''T''), (''impact'', JFloat ''nan'')]])]"

definition example_int :: "string \<Rightarrow> int option" where
  "example_int h =
     (if h \<noteq> [] \<and> list_all (\<lambda>c. CHR ''0'' \<le> c \<and> c \<le> CHR ''9'') h
      then Some (fold (\<lambda>c n. 10 * n + (of_char c - 48)) h 0)
      else None)"

definition example_env :: env where
  "example_env =
     \<lparr>field_map = example_field_map,
      doi_to_data = (\<lambda>doi. if doi = ''10.1000/182''
                             then Inr [(''title'', JStr ''Crossref title''),
                                       (''doi'', JStr ''10.1000/182''),
                                       (''year'', JInt 2004)]
                             else Inl ValueError),
      py_repr = (\<lambda>v. ''[...]''),
      py_int = example_int,
      json_loads = (\<lambda>raw. if raw = example_body then Inr example_data
                            else if raw = batch_body then Inr batch_data
                            else if raw = two_body then Inr two_data
                            else if raw = nan_body then Inr nan_data
                            else Inl JSONDecodeError),
      urlopen_read = (\<lambda>url. if url = JStr ''http://example.org/a.pdf'' then Inr ''%PDF-1.4''
                             else if url = JStr ''http://example.org/a.html'' then Inr ''<html>''
                             else if url = JStr ''http://example.org/paywall.pdf''
                             then Inl (HTTPError 403)
                             else Inl URLError),
      mktemp = (\<lambda>n. ''/tmp/tmp'' @ str_nat n @ ''.pdf''),
      is_pdf = (\<lambda>buf. prefix ''%PDF-'' buf),
      add_run = (\<lambda>files data. None),
      ssize_t_max = 9223372036854775807,
      can_allocate = (\<lambda>n. n \<le> 1073741824)\<rparr>"

definition world0 :: world where
  "world0 = \<lparr>fetched = [], tmpfiles = [], add_calls = [], wfile = []\<rparr>"

section \<open>Properties\<close>

subsection \<open>Dictionaries\<close>

lemma keys_Nil: "keys [] = {}"
  by (simp add: keys_def)

lemma keys_Cons: "keys ((k, v) # d) = insert k (keys d)"
  by (simp add: keys_def)

lemma keys_delete: "keys (AList.delete k d) = keys d - {k}"
  by (induction d) (auto simp: keys_def)

lemma keys_dict_set: "keys (dict_set k v d) = insert k (keys d)"
  by (simp add: keys_def dict_set_def dom_update)

lemma keys_dict_update: "keys (dict_update d i) = keys d \<union> keys i"
  unfolding dict_update_def
proof (induction i arbitrary: d)
  case Nil
  then show ?case by (simp add: keys_Nil)
next
  case (Cons a i)
  obtain k v where a: "a = (k, v)" by (cases a)
  have "keys (fold (\<lambda>(k, v). dict_set k v) i (dict_set k v d)) = keys (dict_set k v d) \<union> keys i"
    using Cons.IH by simp
  then show ?case by (simp add: a keys_dict_set keys_Cons)
qed

lemma map_of_dict_set: "map_of (dict_set k v d) = (map_of d)(k \<mapsto> v)"
  by (simp add: dict_set_def update_conv')

lemma map_of_dict_update: "map_of (dict_update d i) = map_of d ++ map_of (rev i)"
  unfolding dict_update_def
proof (induction i arbitrary: d)
  case Nil
  then show ?case by simp
next
  case (Cons a i)
  obtain k v where a: "a = (k, v)" by (cases a)
  have "map_of (fold (\<lambda>(k, v). dict_set k v) i (dict_set k v d))
          = map_of (dict_set k v d) ++ map_of (rev i)"
    using Cons.IH by simp
  then show ?case
    by (simp add: a map_of_dict_set map_add_upd_left)
qed

lemma map_of_dict_update_notin:
  assumes "k \<notin> keys i"
  shows "map_of (dict_update d i) k = map_of d k"
proof -
  have "map_of (rev i) k = None"
    using assms by (simp add: keys_def map_of_eq_None_iff)
  then show ?thesis
    by (simp add: map_of_dict_update map_add_def)
qed

lemma map_of_dict_update_in:
  assumes "distinct (map fst i)" and "map_of i k = Some v"
  shows "map_of (dict_update d i) k = Some v"
proof -
  have "(k, v) \<in> set (rev i)" using assms(2) by (simp add: map_of_SomeD)
  moreover have "distinct (map fst (rev i))" using assms(1) by (simp add: rev_map [symmetric])
  ultimately have "map_of (rev i) k = Some v" by (rule map_of_is_SomeI [rotated])
  then show ?thesis
    by (simp add: map_of_dict_update map_add_def)
qed

lemma update_fresh: "k \<notin> fst ` set d \<Longrightarrow> AList.update k v d = d @ [(k, v)]"
  by (induction d) auto

lemma dict_update_distinct:
  "distinct (map fst (d @ i)) \<Longrightarrow> dict_update d i = d @ i"
  unfolding dict_update_def
proof (induction i arbitrary: d)
  case Nil
  then show ?case by simp
next
  case (Cons a i)
  obtain k v where a: "a = (k, v)" by (cases a)
  from Cons.prems have k: "k \<notin> fst ` set d" by (auto simp: a)
  from Cons.prems have "distinct (map fst ((d @ [(k, v)]) @ i))" by (simp add: a)
  then have "fold (\<lambda>(k, v). dict_set k v) i (d @ [(k, v)]) = (d @ [(k, v)]) @ i"
    by (rule Cons.IH)
  moreover have "dict_set k v d = d @ [(k, v)]"
    using k by (simp add: dict_set_def update_fresh)
  ultimately show ?case
    by (simp add: a)
qed

lemma delete_as_filter: "AList.delete k d = filter (\<lambda>(k', v). k' \<noteq> k) d"
  by (induction d) auto

subsection \<open>The translation loop\<close>

lemma translate_item:
  "fst (translate fm (item, data)) = filter (\<lambda>(k, v). k \<notin> fst ` set fm) item"
proof (induction fm arbitrary: item data)
  case Nil
  then show ?case by simp
next
  case (Cons a fm)
  obtain key pk where a: "a = (key, pk)" by (cases a)
  show ?case
    by (simp add: a dict_pop_def Cons.IH delete_as_filter) (rule filter_cong, auto)
qed

lemma translate_keys:
  "keys (snd (translate fm (item, data))) \<subseteq> keys data \<union> snd ` set fm"
proof (induction fm arbitrary: item data)
  case Nil
  then show ?case by simp
next
  case (Cons a fm)
  obtain key pk where a: "a = (key, pk)" by (cases a)
  show ?case
    using Cons.IH [of "AList.delete key item" "dict_set pk (dict_get item key) data"]
          Cons.IH [of "AList.delete key item" data]
    by (auto simp: a dict_pop_def keys_dict_set)
qed

lemma translate_keys_mono:
  "keys data \<subseteq> keys (snd (translate fm (item, data)))"
proof (induction fm arbitrary: item data)
  case Nil
  then show ?case by simp
next
  case (Cons a fm)
  obtain key pk where a: "a = (key, pk)" by (cases a)
  show ?case
    using Cons.IH [of "dict_set pk (dict_get item key) data" "AList.delete key item"]
          Cons.IH [of data "AList.delete key item"]
    by (auto simp: a dict_pop_def keys_dict_set)
qed

lemma translate_sets:
  assumes "distinct (map fst fm)" and "(S, K) \<in> set fm"
      and "map_of item S = Some v" and "v \<noteq> JNull"
  shows "K \<in> keys (snd (translate fm (item, data)))"
  using assms
proof (induction fm arbitrary: item data)
  case Nil
  then show ?case by simp
next
  case (Cons a fm)
  obtain key pk where a: "a = (key, pk)" by (cases a)
  show ?case
  proof (cases "(S, K) = (key, pk)")
    case True
    then have "dict_get item key = v" using Cons.prems(3) by (simp add: dict_get_def)
    moreover have "K \<in> keys (dict_set pk v data)" using True by (simp add: keys_dict_set)
    ultimately show ?thesis
      using translate_keys_mono [of "dict_set pk v data" fm "AList.delete key item"] Cons.prems(4)
      by (auto simp: a dict_pop_def)
  next
    case False
    with Cons.prems a have in_rest: "(S, K) \<in> set fm" and d: "distinct (map fst fm)"
      and ne: "S \<noteq> key"
      by (auto simp: image_iff)
    from ne Cons.prems(3) have "map_of (AList.delete key item) S = Some v"
      by (simp add: delete_conv')
    from Cons.IH [OF d in_rest this Cons.prems(4)] show ?thesis
      by (simp add: a dict_pop_def)
  qed
qed

lemma translate_untouched:
  "keys item \<inter> fst ` set fm = {} \<Longrightarrow> translate fm (item, data) = (item, data)"
proof (induction fm arbitrary: item data)
  case Nil
  then show ?case by simp
next
  case (Cons a fm)
  obtain key pk where a: "a = (key, pk)" by (cases a)
  from Cons.prems have k: "key \<notin> fst ` set item" by (auto simp: a keys_def)
  then have "AList.delete key item = item" by (rule delete_id)
  moreover from k have "map_of item key = None"
    by (simp add: map_of_eq_None_iff)
  then have "dict_get item key = JNull"
    by (simp add: dict_get_def)
  moreover from Cons.prems have "keys item \<inter> fst ` set fm = {}" by (auto simp: a)
  ultimately show ?case using Cons.IH by (simp add: a dict_pop_def)
qed

subsection \<open>The structure of the mapper\<close>

lemma map_of_filter_key:
  "P k \<Longrightarrow> map_of (filter (\<lambda>(k', v). P k') d) k = map_of d k"
  by (induction d) auto

lemma keys_filter: "keys (filter (\<lambda>(k, v). P k) d) = {k \<in> keys d. P k}"
  by (induction d) (auto simp: keys_def)

lemma keys_leftover:
  "keys (leftover env item) =
     keys item - {''id'', ''attachments'', ''tags''} - fst ` set (field_map env)"
  unfolding leftover_def keys_filter by auto

lemma distinct_leftover: "distinct (map fst item) \<Longrightarrow> distinct (map fst (leftover env item))"
  by (simp add: leftover_def distinct_map_filter)

lemma map_of_leftover:
  assumes "k \<noteq> ''id''" "k \<noteq> ''attachments''" "k \<noteq> ''tags''" "k \<notin> fst ` set (field_map env)"
  shows "map_of (leftover env item) k = map_of item k"
  unfolding leftover_def
  using assms
  by (intro map_of_filter_key
        [of "\<lambda>k. k \<noteq> ''id'' \<and> k \<noteq> ''attachments'' \<and> k \<noteq> ''tags''
                 \<and> k \<notin> fst ` set (field_map env)"]) simp

lemma leftover_after_pops:
  "AList.delete ''tags''
     (fst (translate (field_map env)
             (AList.delete ''attachments'' (AList.delete ''id'' item), data)))
   = leftover env item"
  unfolding translate_item delete_as_filter leftover_def filter_filter
  by (rule filter_cong) auto

lemma map_fields_unfold:
  "map_fields env item =
     (case set_tags
             (dict_get (fst (translate (field_map env)
                  (AList.delete ''attachments'' (AList.delete ''id'' item), []))) ''tags'')
             (snd (translate (field_map env)
                  (AList.delete ''attachments'' (AList.delete ''id'' item), []))) of
        Inl e \<Rightarrow> (Inl e, leftover env item)
      | Inr data2 \<Rightarrow> (Inr (dict_update data2 (leftover env item)), leftover env item))"
  by (simp add: map_fields_def dict_pop_def Let_def split_beta leftover_after_pops
        cong: sum.case_cong)

lemma snd_map_fields: "snd (map_fields env item) = leftover env item"
  by (simp add: map_fields_unfold split: sum.splits)

lemma tags_after_translate:
  assumes "''tags'' \<notin> fst ` set fm"
  shows "dict_get (fst (translate fm
            (AList.delete ''attachments'' (AList.delete ''id'' item), data))) ''tags''
         = dict_get item ''tags''"
proof -
  have "map_of (filter (\<lambda>(k, v). k \<notin> fst ` set fm)
          (AList.delete ''attachments'' (AList.delete ''id'' item))) ''tags''
        = map_of (AList.delete ''attachments'' (AList.delete ''id'' item)) ''tags''"
    using assms by (intro map_of_filter_key [of "\<lambda>k. k \<notin> fst ` set fm"])
  then show ?thesis
    by (simp add: translate_item dict_get_def delete_conv')
qed

lemma set_tags_keys:
  "set_tags t d = Inr d' \<Longrightarrow> keys d' \<subseteq> insert ''tags'' (keys d)"
  by (cases t) (auto simp: keys_dict_set split: sum.splits)

lemma set_tags_not_list:
  "\<forall>ts. t \<noteq> JList ts \<Longrightarrow> set_tags t d = Inr d"
  by (cases t) auto

lemma str_join_space: "str_join '' '' (map JStr ss) = Inr (space_joined ss)"
  by (induction ss rule: space_joined.induct) auto

lemma map_fields_keys:
  assumes "fst (map_fields env item) = Inr data"
  shows "keys data \<subseteq> snd ` set (field_map env) \<union> {''tags''} \<union> keys (leftover env item)"
proof -
  let ?T = "translate (field_map env) (AList.delete ''attachments'' (AList.delete ''id'' item), [])"
  from assms obtain data2 where
    st: "set_tags (dict_get (fst ?T) ''tags'') (snd ?T) = Inr data2"
    and d: "data = dict_update data2 (leftover env item)"
    by (auto simp: map_fields_unfold split: sum.splits)
  have "keys (snd ?T) \<subseteq> snd ` set (field_map env)"
    using translate_keys [of "field_map env" _ "[]"] by (simp add: keys_Nil)
  with set_tags_keys [OF st] have "keys data2 \<subseteq> snd ` set (field_map env) \<union> {''tags''}"
    by auto
  then show ?thesis by (auto simp: d keys_dict_update)
qed

lemma enrich_cases:
  assumes "enrich env data = Inr data'"
  obtains (same) "data' = data"
  | (merged) doi cd where "doi_to_data env doi = Inr cd"
      and "data' = dict_update data (AList.delete ''title'' cd)"
  using assms
  by (auto simp: enrich_def Let_def dict_pop_def split: if_splits sum.splits)

lemma mapper_cases:
  assumes "fst (zotero_data_to_papis_data env item) = Inr data"
  obtains d where "fst (map_fields env item) = Inr d" and "enrich env d = Inr data"
  using assms
  by (auto simp: zotero_data_to_papis_data_def split: prod.splits sum.splits)

lemma mapper_lookup_cases:
  assumes "fst (zotero_data_to_papis_data env item) = Inr data"
  obtains (no_lookup) "fst (map_fields env item) = Inr data"
      and "lookup_made env item = None"
  | (merged) d cd where "fst (map_fields env item) = Inr d"
      and "lookup_made env item = Some (Inr cd)"
      and "data = dict_update d (AList.delete ''title'' cd)"
  using assms
  by (auto simp: zotero_data_to_papis_data_def enrich_def lookup_made_def Let_def dict_pop_def
        split: prod.splits sum.splits if_splits)

lemma map_of_filter_out:
  "\<not> P k \<Longrightarrow> map_of (filter (\<lambda>(k', v). P k') d) k = None"
  by (induction d) auto

lemma tags_after_translate_popped:
  assumes "''tags'' \<in> fst ` set fm"
  shows "dict_get (fst (translate fm
            (AList.delete ''attachments'' (AList.delete ''id'' item), data))) ''tags'' = JNull"
proof -
  have "map_of (filter (\<lambda>(k, v). k \<notin> fst ` set fm)
          (AList.delete ''attachments'' (AList.delete ''id'' item))) ''tags'' = None"
    using assms by (intro map_of_filter_out [of "\<lambda>k. k \<notin> fst ` set fm"]) simp
  then show ?thesis
    by (simp add: translate_item dict_get_def)
qed

lemma snd_mapper: "snd (zotero_data_to_papis_data env item) = leftover env item"
  using snd_map_fields [of env item]
  by (auto simp: zotero_data_to_papis_data_def split: prod.splits sum.splits)

lemma leftover_idem: "leftover env (leftover env item) = leftover env item"
  by (simp add: leftover_def cong: filter_cong) 

lemma map_fields_leftover:
  assumes "distinct (map fst item)"
  shows "map_fields env (leftover env item) = (Inr (leftover env item), leftover env item)"
proof -
  let ?l = "leftover env item"
  have k: "keys ?l = keys item - {''id'', ''attachments'', ''tags''} - fst ` set (field_map env)"
    by (rule keys_leftover)
  have "''id'' \<notin> fst ` set ?l" "''attachments'' \<notin> fst ` set ?l"
    using k by (auto simp: keys_def)
  then have del: "AList.delete ''attachments'' (AList.delete ''id'' ?l) = ?l"
    by (simp add: delete_id)
  have "keys ?l \<inter> fst ` set (field_map env) = {}" using k by auto
  then have tr: "translate (field_map env) (?l, []) = (?l, [])"
    by (rule translate_untouched)
  have "''tags'' \<notin> fst ` set ?l" using k by (auto simp: keys_def)
  then have "map_of ?l ''tags'' = None" by (simp add: map_of_eq_None_iff)
  then have tg: "dict_get ?l ''tags'' = JNull" by (simp add: dict_get_def)
  have "distinct (map fst ([] @ ?l))" using assms by (simp add: distinct_leftover)
  then have up: "dict_update [] ?l = ?l" 
    using dict_update_distinct [of "[]" ?l] by simp
  show ?thesis
    by (simp add: map_fields_unfold del tr tg up leftover_idem)
qed

subsection \<open>The pattern \<open>.*pdf.*\<close>\<close>

text \<open>
  On the pattern of the module the matcher unfolds to a search for \<open>pdf\<close> from the
  start of the string that stops at the first newline: \<open>re.match\<close> succeeds exactly
  when \<open>pdf\<close>, in lower case, occurs in the string with no newline before it.
\<close>

lemma re_match_rest: "re_match [Many a] s"
  by (induction s) auto

lemma re_match_pdf_Nil: "\<not> re_match pdf_pattern []"
  by (simp add: pdf_pattern_def)

lemma re_match_pdf_Cons:
  "re_match pdf_pattern (c # cs)
     = (prefix ''pdf'' (c # cs) \<or> c \<noteq> CHR 0x0A \<and> re_match pdf_pattern cs)"
proof -
  have "re_match [One (Lit CHR ''p''), One (Lit CHR ''d''), One (Lit CHR ''f''), Many AnyChar] s
          = prefix ''pdf'' s" for s
  proof (cases s)
    case Nil
    then show ?thesis by simp
  next
    case s1: (Cons c1 r1)
    show ?thesis
    proof (cases r1)
      case Nil
      with s1 show ?thesis by simp
    next
      case s2: (Cons c2 r2)
      show ?thesis
      proof (cases r2)
        case Nil
        with s1 s2 show ?thesis by simp
      next
        case (Cons c3 r3)
        with s1 s2 show ?thesis by (auto simp: re_match_rest)
      qed
    qed
  qed
  then show ?thesis
    unfolding pdf_pattern_def
    by (subst re_match.simps(5)) (simp only: atom_matches.simps)
qed

lemma re_match_pdf_iff:
  "re_match pdf_pattern s \<longleftrightarrow> (\<exists>u v. s = u @ ''pdf'' @ v \<and> CHR 0x0A \<notin> set u)"
proof (induction s)
  case Nil
  then show ?case by (simp add: re_match_pdf_Nil)
next
  case (Cons c cs)
  show ?case
  proof (cases "prefix ''pdf'' (c # cs)")
    case True
    then obtain v where "c # cs = ''pdf'' @ v" by (auto simp: prefix_def)
    then have "c # cs = [] @ ''pdf'' @ v \<and> CHR 0x0A \<notin> set ([] :: string)" by simp
    then have "\<exists>u v. c # cs = u @ ''pdf'' @ v \<and> CHR 0x0A \<notin> set u" by blast
    moreover have "re_match pdf_pattern (c # cs)"
      using True by (simp only: re_match_pdf_Cons simp_thms)
    ultimately show ?thesis by blast
  next
    case False
    have "(c \<noteq> CHR 0x0A \<and> (\<exists>u v. cs = u @ ''pdf'' @ v \<and> CHR 0x0A \<notin> set u))
          \<longleftrightarrow> (\<exists>u v. c # cs = u @ ''pdf'' @ v \<and> CHR 0x0A \<notin> set u)" (is "?L \<longleftrightarrow> ?R")
    proof
      assume ?L
      then obtain u v where "cs = u @ ''pdf'' @ v" "CHR 0x0A \<notin> set u" "c \<noteq> CHR 0x0A" by blast
      then have "c # cs = (c # u) @ ''pdf'' @ v \<and> CHR 0x0A \<notin> set (c # u)" by simp
      then show ?R by blast
    next
      assume ?R
      then obtain u v where uv: "c # cs = u @ ''pdf'' @ v" "CHR 0x0A \<notin> set u" by blast
      show ?L
      proof (cases u)
        case Nil
        with uv have "prefix ''pdf'' (c # cs)" by (simp add: prefix_def)
        with False show ?thesis by simp
      next
        case (Cons d u')
        with uv have "c = d" "cs = u' @ ''pdf'' @ v" "CHR 0x0A \<notin> set u'" "d \<noteq> CHR 0x0A" by auto
        then show ?thesis by blast
      qed
    qed
    moreover have "re_match pdf_pattern (c # cs) = (c \<noteq> CHR 0x0A \<and> re_match pdf_pattern cs)"
      using False by (simp only: re_match_pdf_Cons simp_thms)
    ultimately show ?thesis using Cons.IH by blast
  qed
qed

declare re_match_pdf_Nil [simp] re_match_pdf_Cons [simp]

lemma lower_pdf: "map ascii_lower ''pdf'' = ''pdf''"
  by (simp add: ascii_lower_def)

lemma re_match_pdf_first_line:
  "re_match pdf_pattern s \<longleftrightarrow> sublist ''pdf'' (takeWhile (\<lambda>c. c \<noteq> CHR 0x0A) s)"
proof
  assume "re_match pdf_pattern s"
  then obtain u v where s: "s = u @ ''pdf'' @ v" and u: "CHR 0x0A \<notin> set u"
    by (auto simp: re_match_pdf_iff)
  from u have "takeWhile (\<lambda>c. c \<noteq> CHR 0x0A) (u @ (''pdf'' @ v))
                 = u @ takeWhile (\<lambda>c. c \<noteq> CHR 0x0A) (''pdf'' @ v)"
    by (intro takeWhile_append2) auto
  then have "takeWhile (\<lambda>c. c \<noteq> CHR 0x0A) s
                 = u @ ''pdf'' @ takeWhile (\<lambda>c. c \<noteq> CHR 0x0A) v"
    by (simp add: s)
  then show "sublist ''pdf'' (takeWhile (\<lambda>c. c \<noteq> CHR 0x0A) s)"
    by (simp only: sublist_appendI)
next
  assume "sublist ''pdf'' (takeWhile (\<lambda>c. c \<noteq> CHR 0x0A) s)"
  then obtain ps ss where t: "takeWhile (\<lambda>c. c \<noteq> CHR 0x0A) s = ps @ ''pdf'' @ ss"
    by (auto simp: sublist_def)
  have "set (takeWhile (\<lambda>c. c \<noteq> CHR 0x0A) s) \<subseteq> {c. c \<noteq> CHR 0x0A}"
    by (auto dest: set_takeWhileD)
  with t have n: "CHR 0x0A \<notin> set ps" by auto
  have "s = takeWhile (\<lambda>c. c \<noteq> CHR 0x0A) s @ dropWhile (\<lambda>c. c \<noteq> CHR 0x0A) s"
    by simp
  with t have "s = ps @ ''pdf'' @ (ss @ dropWhile (\<lambda>c. c \<noteq> CHR 0x0A) s)"
    by simp
  with n show "re_match pdf_pattern s"
    unfolding re_match_pdf_iff by blast
qed

lemma pdf_in_any_case:
  assumes "re_match pdf_pattern s"
  shows "sublist ''pdf'' (map ascii_lower s)"
proof -
  from assms obtain u v where "s = u @ ''pdf'' @ v" by (auto simp: re_match_pdf_iff)
  then have "map ascii_lower s = map ascii_lower u @ map ascii_lower ''pdf'' @ map ascii_lower v"
    by simp
  then have "map ascii_lower s = map ascii_lower u @ ''pdf'' @ map ascii_lower v"
    by (simp only: lower_pdf)
  then show ?thesis by (simp only: sublist_appendI)
qed

subsection \<open>Requests that do not decode\<close>

text \<open>
  Claim C7, as the code has it. When \<open>json.loads\<close> rejects the body of a \<open>saveItems\<close>
  request that \<open>read_input\<close> has read, \<open>add\<close> ends with the exception of
  \<open>json.loads\<close> before anything else has happened: the world is the one it started
  from, so no item was handed to \<open>papis.commands.add.run\<close>, no URL was fetched and no
  status (in particular no 201) was sent.
\<close>

theorem malformed_body_stops_add:
  assumes "read_input env req = Inr rawinput"
      and "json_loads env rawinput = Inl e"
  shows "add env req w = (Inl e, w)"
  using assms by (simp add: add_def)

text \<open>
  The claim as stated speaks of every body that is not valid JSON, and fails: \<open>json.loads\<close>
  accepts the constant \<open>NaN\<close>, which no JSON text contains outside a string. A body with
  one item that has \<open>NaN\<close> for a value is decoded, the item is handed to papis and the
  response is 201 with the body echoed.
\<close>

theorem NaN_body_is_processed:
  "add example_env \<lparr>content_length = Some ''38'', rfile = nan_body\<rparr> world0
     = (Inr (),
        \<lparr>fetched = [], tmpfiles = [],
         add_calls = [([], [(''title'', JStr ''T''), (''impact'', JFloat ''nan'')])],
         wfile = [SendResponse 201,
                  SendHeader ''X-Zotero-Version'' ''5.0.25'',
                  SendHeader ''X-Zotero-Connector-API-Version'' ''2'',
                  EndHeaders,
                  Write nan_body]\<rparr>)"
proof -
  have r: "read_input example_env \<lparr>content_length = Some ''38'', rfile = nan_body\<rparr>
             = Inr nan_body"
    by (simp add: read_input_def rfile_read_def example_env_def example_int_def nan_body_def)
  have j: "json_loads example_env nan_body = Inr nan_data"
    by (simp add: example_env_def example_body_def batch_body_def two_body_def nan_body_def)
  have z: "zotero_data_to_papis_data example_env
             [(''title'', JStr ''T''), (''impact'', JFloat ''nan'')]
           = (Inr [(''title'', JStr ''T''), (''impact'', JFloat ''nan'')],
              [(''title'', JStr ''T''), (''impact'', JFloat ''nan'')])"
    by (simp add: zotero_data_to_papis_data_def map_fields_def enrich_def dict_pop_def dict_get_def
        dict_set_def dict_update_def example_env_def example_field_map_def Let_def)
  have a: "add_run example_env [] [(''title'', JStr ''T''), (''impact'', JFloat ''nan'')] = None"
    by (simp add: example_env_def)
  show ?thesis
    by (simp add: add_def r j nan_data_def add_item_def has_attachments_def dict_get_def z a
          world0_def set_zotero_headers_def ZOTERO_VERSION_def ZOTERO_CONNECTOR_API_VERSION_def
          str_int_def)
qed

theorem malformed_body_stops_add_witness:
  "read_input example_env \<lparr>content_length = Some ''5'', rfile = ''{oops''\<rparr> = Inr ''{oops''
   \<and> json_loads example_env ''{oops'' = Inl JSONDecodeError
   \<and> add example_env \<lparr>content_length = Some ''5'', rfile = ''{oops''\<rparr> world0
       = (Inl JSONDecodeError, world0)"
proof -
  have r: "read_input example_env \<lparr>content_length = Some ''5'', rfile = ''{oops''\<rparr> = Inr ''{oops''"
    by (simp add: read_input_def rfile_read_def example_env_def example_int_def)
  have j: "json_loads example_env ''{oops'' = Inl JSONDecodeError"
    by (simp add: example_env_def example_body_def batch_body_def two_body_def nan_body_def)
  show ?thesis
    using r j malformed_body_stops_add [OF r j, of world0] by simp
qed

subsection \<open>Attachments without a media type\<close>



subsection \<open>Which attachments are fetched\<close>

lemma attachment_step_fetched:
  "fetched (snd (attachment_step env (JObj a) files w)) =
     (if re_match pdf_pattern (py_str env (dict_get a ''mimeType''))
      then fetched w @ [dict_get a ''url''] else fetched w)"
  by (simp add: attachment_step_def Let_def split: sum.splits)

text \<open>
  Claim C4, as the code has it. The decision to fetch is \<open>re.match(r".*pdf.*", mime)\<close>
  without a flag: \<open>urlopen\<close> is called with the descriptor's \<open>url\<close> exactly when
  \<open>pdf\<close>, in lower case, occurs in the first line of \<open>str\<close> of the media type. In
  particular a media type that does not contain \<open>pdf\<close> in any case is never fetched: the
  iteration leaves the files and the world as they were.
\<close>

theorem fetch_decision_is_case_sensitive:
  "fetched (snd (attachment_step env (JObj a) files w)) =
     (if sublist ''pdf'' (takeWhile (\<lambda>c. c \<noteq> CHR 0x0A) (py_str env (dict_get a ''mimeType'')))
      then fetched w @ [dict_get a ''url''] else fetched w)
   \<and> (\<not> sublist ''pdf'' (map ascii_lower (py_str env (dict_get a ''mimeType'')))
        \<longrightarrow> attachment_step env (JObj a) files w = (Inr files, w))"
proof -
  have "\<not> sublist ''pdf'' (map ascii_lower (py_str env (dict_get a ''mimeType'')))
        \<Longrightarrow> attachment_step env (JObj a) files w = (Inr files, w)"
    using pdf_in_any_case [of "py_str env (dict_get a ''mimeType'')"]
    by (auto simp: attachment_step_def Let_def)
  then show ?thesis
    by (simp only: attachment_step_fetched re_match_pdf_first_line) blast
qed

text \<open>
  The claim as stated fails: the media type \<open>application/PDF\<close> contains \<open>pdf\<close> in
  upper case only, and the attachment is not fetched, although the URL would serve a PDF.
\<close>

theorem upper_case_PDF_is_not_fetched:
  "attachment_step example_env
     (JObj [(''mimeType'', JStr ''application/PDF''), (''url'', JStr ''http://example.org/a.pdf'')])
     [] world0 = (Inr [], world0)"
  by (simp add: attachment_step_def dict_get_def)

theorem fetch_decision_is_case_sensitive_witness:
  "fetched (snd (attachment_step example_env
     (JObj [(''mimeType'', JStr ''application/pdf''), (''url'', JStr ''http://example.org/a.pdf'')])
     [] world0)) = [JStr ''http://example.org/a.pdf'']
   \<and> attachment_step example_env
     (JObj [(''mimeType'', JStr ''text/html''), (''url'', JStr ''http://example.org/a.html'')])
     [] world0 = (Inr [], world0)"
proof -
  have m1: "py_str example_env (dict_get [(''mimeType'', JStr ''application/pdf''), (''url'', JStr ''http://example.org/a.pdf'')] ''mimeType'') = ''application/pdf''"
    by (simp add: dict_get_def)
  have m2: "py_str example_env (dict_get [(''mimeType'', JStr ''text/html''), (''url'', JStr ''http://example.org/a.html'')] ''mimeType'') = ''text/html''"
    by (simp add: dict_get_def)
  have a: "sublist ''pdf'' (takeWhile (\<lambda>c. c \<noteq> CHR 0x0A) ''application/pdf'')"
    by (simp add: sublist_code(3))
  have b: "\<not> sublist ''pdf'' (map ascii_lower ''text/html'')"
    by (simp add: ascii_lower_def sublist_code(3))
  show ?thesis
    using fetch_decision_is_case_sensitive
            [of example_env "[(''mimeType'', JStr ''application/pdf''), (''url'', JStr ''http://example.org/a.pdf'')]" "[]" world0]
          fetch_decision_is_case_sensitive
            [of example_env "[(''mimeType'', JStr ''text/html''), (''url'', JStr ''http://example.org/a.html'')]" "[]" world0]
          a b
    by (simp only: m1 m2 if_True) (simp add: dict_get_def world0_def)
qed

subsection \<open>Errors of the attachment download\<close>

text \<open>
  Claim C2, as the code has it. The download is inside \<open>try\<close> with
  \<open>except urllib.error.HTTPError\<close>: when the server answers with an error status, the
  iteration ends with \<open>continue\<close>, the list of files is unchanged, no exception is
  raised and the loop goes on with the remaining attachments.
\<close>

theorem http_error_skips_attachment:
  assumes "re_match pdf_pattern (py_str env (dict_get a ''mimeType''))"
      and "urlopen_read env (dict_get a ''url'') = Inl (HTTPError code)"
  shows "attachment_step env (JObj a) files w
           = (Inr files, w\<lparr>fetched := fetched w @ [dict_get a ''url'']\<rparr>)
       \<and> attachments_loop env (JObj a # rest) files w
           = attachments_loop env rest files (w\<lparr>fetched := fetched w @ [dict_get a ''url'']\<rparr>)"
proof -
  have "attachment_step env (JObj a) files w
          = (Inr files, w\<lparr>fetched := fetched w @ [dict_get a ''url'']\<rparr>)"
    using assms by (simp add: attachment_step_def Let_def)
  then show ?thesis by simp
qed

text \<open>
  The claim as stated also promises this for an unreachable host. That error is an
  \<open>URLError\<close>, which the \<open>except\<close> clause does not name: in a batch of two items, the
  first with one PDF attachment on an unreachable host, \<open>add\<close> ends with the exception,
  neither item is handed to papis and no response is written.
\<close>

theorem unreachable_host_aborts_add:
  "add example_env \<lparr>content_length = Some ''127'', rfile = batch_body\<rparr> world0
     = (Inl URLError, world0\<lparr>fetched := [JStr ''http://unreachable.invalid/a.pdf'']\<rparr>)"
  by (simp add: add_def read_input_def rfile_read_def example_env_def example_int_def batch_body_def two_body_def nan_body_def
        example_body_def batch_data_def add_item_def has_attachments_def dict_get_def
        attachment_step_def world0_def)

theorem http_error_skips_attachment_witness:
  "re_match pdf_pattern (py_str example_env
      (dict_get [(''mimeType'', JStr ''application/pdf''),
                 (''url'', JStr ''http://example.org/paywall.pdf'')] ''mimeType''))
   \<and> urlopen_read example_env
        (dict_get [(''mimeType'', JStr ''application/pdf''),
                   (''url'', JStr ''http://example.org/paywall.pdf'')] ''url'') = Inl (HTTPError 403)
   \<and> attachments_loop example_env
        [JObj [(''mimeType'', JStr ''application/pdf''),
               (''url'', JStr ''http://example.org/paywall.pdf'')],
         JObj [(''mimeType'', JStr ''application/pdf''),
               (''url'', JStr ''http://example.org/a.pdf'')]] [] world0
       = (Inr [''/tmp/tmp0.pdf''],
          \<lparr>fetched = [JStr ''http://example.org/paywall.pdf'', JStr ''http://example.org/a.pdf''],
           tmpfiles = [(''/tmp/tmp0.pdf'', ''%PDF-1.4'')],
           add_calls = [], wfile = []\<rparr>)"
proof -
  have m: "re_match pdf_pattern (py_str example_env
      (dict_get [(''mimeType'', JStr ''application/pdf''),
                 (''url'', JStr ''http://example.org/paywall.pdf'')] ''mimeType''))"
    by (simp add: dict_get_def)
  have u: "urlopen_read example_env
        (dict_get [(''mimeType'', JStr ''application/pdf''),
                   (''url'', JStr ''http://example.org/paywall.pdf'')] ''url'') = Inl (HTTPError 403)"
    by (simp add: dict_get_def example_env_def)
  show ?thesis
    using m u http_error_skips_attachment [OF m u, of "[]" world0
            "[JObj [(''mimeType'', JStr ''application/pdf''),
                    (''url'', JStr ''http://example.org/a.pdf'')]]"]
    by (simp add: attachment_step_def dict_get_def example_env_def world0_def Let_def)
qed

subsection \<open>The keys \<open>id\<close> and \<open>attachments\<close>\<close>

text \<open>
  Claim C1, as the code has it. The mapper pops \<open>id\<close> and \<open>attachments\<close> from the
  item before anything is copied, so neither key reaches the record from the item. The
  record it returns contains neither key provided the table has no canonical key of that
  name and the dictionary returned by the Crossref lookup that takes place for the item,
  when one takes place, contains neither: of that dictionary only \<open>title\<close> is removed
  before it is merged. What the lookup returns for other DOIs plays no part.
\<close>

theorem record_has_no_id_or_attachments:
  assumes "fst (zotero_data_to_papis_data env item) = Inr data"
      and "''id'' \<notin> snd ` set (field_map env)"
      and "''attachments'' \<notin> snd ` set (field_map env)"
      and "\<forall>cd. lookup_made env item = Some (Inr cd)
                \<longrightarrow> ''id'' \<notin> keys cd \<and> ''attachments'' \<notin> keys cd"
  shows "''id'' \<notin> keys data \<and> ''attachments'' \<notin> keys data"
  using assms(1)
proof (cases rule: mapper_lookup_cases)
  case no_lookup
  from map_fields_keys [OF no_lookup(1)] assms(2,3) show ?thesis
    by (auto simp: keys_leftover)
next
  case (merged d cd)
  from map_fields_keys [OF merged(1)] assms(2,3)
  have "''id'' \<notin> keys d \<and> ''attachments'' \<notin> keys d"
    by (auto simp: keys_leftover)
  moreover from merged(2) assms(4) have "''id'' \<notin> keys cd \<and> ''attachments'' \<notin> keys cd"
    by blast
  ultimately show ?thesis
    by (simp add: merged(3) keys_dict_update keys_delete)
qed

text \<open>
  The claim as stated (whatever the lookup returns) fails: when the lookup returns a
  dictionary with the key \<open>id\<close>, the record has that key.
\<close>

theorem enrichment_can_add_id:
  "fst (zotero_data_to_papis_data
          (example_env\<lparr>doi_to_data := \<lambda>doi. Inr [(''id'', JStr ''crossref-1'')]\<rparr>)
          [(''id'', JStr ''zotero-1''), (''attachments'', JList []),
           (''title'', JStr ''T''), (''doi'', JStr ''10.1000/182'')])
   = Inr [(''title'', JStr ''T''), (''doi'', JStr ''10.1000/182''), (''id'', JStr ''crossref-1'')]"
  by (simp add: zotero_data_to_papis_data_def map_fields_def enrich_def dict_pop_def dict_get_def
        dict_set_def dict_update_def example_env_def example_field_map_def Let_def)

theorem record_has_no_id_or_attachments_witness:
  "fst (zotero_data_to_papis_data
          (example_env\<lparr>doi_to_data := \<lambda>doi. if doi = ''10.1000/182''
                                              then Inr [(''year'', JInt 2004)]
                                              else Inr [(''id'', JStr ''crossref-1'')]\<rparr>)
          [(''id'', JStr ''zotero-1''), (''attachments'', JList []),
           (''title'', JStr ''T''), (''doi'', JStr ''10.1000/182'')])
     = Inr [(''title'', JStr ''T''), (''doi'', JStr ''10.1000/182''), (''year'', JInt 2004)]
   \<and> lookup_made
          (example_env\<lparr>doi_to_data := \<lambda>doi. if doi = ''10.1000/182''
                                              then Inr [(''year'', JInt 2004)]
                                              else Inr [(''id'', JStr ''crossref-1'')]\<rparr>)
          [(''id'', JStr ''zotero-1''), (''attachments'', JList []),
           (''title'', JStr ''T''), (''doi'', JStr ''10.1000/182'')]
     = Some (Inr [(''year'', JInt 2004)])
   \<and> ''id'' \<notin> keys [(''title'', JStr ''T''), (''doi'', JStr ''10.1000/182''), (''year'', JInt 2004)]
   \<and> ''attachments'' \<notin> keys [(''title'', JStr ''T''), (''doi'', JStr ''10.1000/182''), (''year'', JInt 2004)]"
proof -
  let ?env = "example_env\<lparr>doi_to_data := \<lambda>doi. if doi = ''10.1000/182''
                                              then Inr [(''year'', JInt 2004)]
                                              else Inr [(''id'', JStr ''crossref-1'')]\<rparr>"
  let ?item = "[(''id'', JStr ''zotero-1''), (''attachments'', JList []),
           (''title'', JStr ''T''), (''doi'', JStr ''10.1000/182'')]"
  let ?data = "[(''title'', JStr ''T''), (''doi'', JStr ''10.1000/182''), (''year'', JInt 2004)]"
  have m: "map_fields ?env ?item
             = (Inr [(''title'', JStr ''T''), (''doi'', JStr ''10.1000/182'')],
                [(''title'', JStr ''T''), (''doi'', JStr ''10.1000/182'')])"
    by (simp add: map_fields_def dict_pop_def dict_get_def
        dict_set_def dict_update_def example_env_def example_field_map_def Let_def)
  have r: "fst (zotero_data_to_papis_data ?env ?item) = Inr ?data"
    by (simp add: zotero_data_to_papis_data_def m enrich_def dict_pop_def dict_get_def
        dict_set_def dict_update_def Let_def)
  have lm: "lookup_made ?env ?item = Some (Inr [(''year'', JInt 2004)])"
    by (simp add: lookup_made_def m dict_get_def)
  have t1: "''id'' \<notin> snd ` set (field_map ?env)"
    by (simp add: example_env_def example_field_map_def)
  have t2: "''attachments'' \<notin> snd ` set (field_map ?env)"
    by (simp add: example_env_def example_field_map_def)
  have l: "\<forall>cd. lookup_made ?env ?item = Some (Inr cd)
              \<longrightarrow> ''id'' \<notin> keys cd \<and> ''attachments'' \<notin> keys cd"
    by (simp add: lm keys_def)
  show ?thesis
    using r lm record_has_no_id_or_attachments [OF r t1 t2 l] by simp
qed

subsection \<open>Failure of the Crossref lookup\<close>

text \<open>
  Claim C3, as the code has it. Let \<open>data\<close> be the dictionary after
  \<open>data.update(item)\<close>. Without a \<open>doi\<close> (or with \<open>None\<close>) there is no lookup and the
  mapper returns \<open>data\<close>. With one, a dictionary returned by the lookup is merged into
  \<open>data\<close> except for its \<open>title\<close>, and an exception raised by the lookup is the outcome
  of the mapper: the call is not inside a \<open>try\<close>, so the error reaches the caller and no
  record is returned.
\<close>

theorem lookup_error_leaves_the_mapper:
  assumes "map_fields env item = (Inr data, item')"
  shows "(dict_get data ''doi'' = JNull
            \<longrightarrow> zotero_data_to_papis_data env item = (Inr data, item'))
       \<and> (dict_get data ''doi'' \<noteq> JNull
            \<and> doi_to_data env (py_str env (dict_get data ''doi'')) = Inl e
            \<longrightarrow> zotero_data_to_papis_data env item = (Inl e, item'))
       \<and> (dict_get data ''doi'' \<noteq> JNull
            \<and> doi_to_data env (py_str env (dict_get data ''doi'')) = Inr cd
            \<longrightarrow> zotero_data_to_papis_data env item
                  = (Inr (dict_update data (AList.delete ''title'' cd)), item'))"
  using assms
  by (simp add: zotero_data_to_papis_data_def enrich_def Let_def dict_pop_def)

text \<open>
  The claim as stated fails: for a DOI that Crossref does not know, the lookup raises and
  so does the mapper.
\<close>

theorem failed_lookup_aborts_mapping:
  "zotero_data_to_papis_data example_env
     [(''title'', JStr ''T''), (''doi'', JStr ''10.9999/unknown'')]
   = (Inl ValueError, [(''title'', JStr ''T''), (''doi'', JStr ''10.9999/unknown'')])"
  by (simp add: zotero_data_to_papis_data_def map_fields_def enrich_def dict_pop_def dict_get_def
        dict_set_def dict_update_def example_env_def example_field_map_def Let_def)

theorem lookup_error_leaves_the_mapper_witness:
  "map_fields example_env [(''title'', JStr ''T''), (''DOI'', JStr ''10.1000/182'')]
     = (Inr [(''doi'', JStr ''10.1000/182''), (''title'', JStr ''T'')], [(''title'', JStr ''T'')])
   \<and> zotero_data_to_papis_data example_env [(''title'', JStr ''T''), (''DOI'', JStr ''10.1000/182'')]
     = (Inr [(''doi'', JStr ''10.1000/182''), (''title'', JStr ''T''), (''year'', JInt 2004)],
        [(''title'', JStr ''T'')])
   \<and> map_fields example_env [(''title'', JStr ''T''), (''DOI'', JStr ''10.9999/unknown'')]
     = (Inr [(''doi'', JStr ''10.9999/unknown''), (''title'', JStr ''T'')], [(''title'', JStr ''T'')])
   \<and> zotero_data_to_papis_data example_env [(''title'', JStr ''T''), (''DOI'', JStr ''10.9999/unknown'')]
     = (Inl ValueError, [(''title'', JStr ''T'')])
   \<and> map_fields example_env [(''title'', JStr ''T'')]
     = (Inr [(''title'', JStr ''T'')], [(''title'', JStr ''T'')])
   \<and> zotero_data_to_papis_data example_env [(''title'', JStr ''T'')]
     = (Inr [(''title'', JStr ''T'')], [(''title'', JStr ''T'')])"
proof -
  have m1: "map_fields example_env [(''title'', JStr ''T''), (''DOI'', JStr ''10.1000/182'')]
     = (Inr [(''doi'', JStr ''10.1000/182''), (''title'', JStr ''T'')], [(''title'', JStr ''T'')])"
    by (simp add: map_fields_def dict_pop_def dict_get_def
        dict_set_def dict_update_def example_env_def example_field_map_def Let_def)
  have m2: "map_fields example_env [(''title'', JStr ''T''), (''DOI'', JStr ''10.9999/unknown'')]
     = (Inr [(''doi'', JStr ''10.9999/unknown''), (''title'', JStr ''T'')], [(''title'', JStr ''T'')])"
    by (simp add: map_fields_def dict_pop_def dict_get_def
        dict_set_def dict_update_def example_env_def example_field_map_def Let_def)
  have m3: "map_fields example_env [(''title'', JStr ''T'')]
     = (Inr [(''title'', JStr ''T'')], [(''title'', JStr ''T'')])"
    by (simp add: map_fields_def dict_pop_def dict_get_def
        dict_set_def dict_update_def example_env_def example_field_map_def Let_def)
  have l1: "doi_to_data example_env ''10.1000/182''
              = Inr [(''title'', JStr ''Crossref title''), (''doi'', JStr ''10.1000/182''),
                     (''year'', JInt 2004)]"
    by (simp add: example_env_def)
  have l2: "doi_to_data example_env ''10.9999/unknown'' = Inl ValueError"
    by (simp add: example_env_def)
  show ?thesis
    using lookup_error_leaves_the_mapper [OF m1, of ValueError
            "[(''title'', JStr ''Crossref title''), (''doi'', JStr ''10.1000/182''),
              (''year'', JInt 2004)]"]
          lookup_error_leaves_the_mapper [OF m2, of ValueError "[]"]
          lookup_error_leaves_the_mapper [OF m3, of ValueError "[]"]
    by (simp add: m1 m2 m3 l1 l2 dict_get_def dict_update_def dict_set_def)
qed

subsection \<open>Tags\<close>

text \<open>
  Claim C5, as the code has it. Assume the mapper returns a record and the dictionary
  returned by the lookup that takes place for the item, when one takes place, has no key
  \<open>tags\<close>. When the item's \<open>tags\<close> is a list of strings and \<open>tags\<close> is not a source
  key of the table, the record maps \<open>tags\<close> to these strings joined by single spaces.
  When the item's \<open>tags\<close> is anything but a list, the value has been popped and is not
  put back: the record has no key \<open>tags\<close>, provided the table has no canonical key
  \<open>tags\<close>.
\<close>

theorem tags_are_joined_or_dropped:
  assumes "fst (zotero_data_to_papis_data env item) = Inr data"
      and "\<forall>cd. lookup_made env item = Some (Inr cd) \<longrightarrow> ''tags'' \<notin> keys cd"
  shows "(dict_get item ''tags'' = JList (map JStr ss) \<and> ''tags'' \<notin> fst ` set (field_map env)
            \<longrightarrow> map_of data ''tags'' = Some (JStr (space_joined ss)))
       \<and> ((\<forall>ts. dict_get item ''tags'' \<noteq> JList ts) \<and> ''tags'' \<notin> snd ` set (field_map env)
            \<longrightarrow> ''tags'' \<notin> keys data)"
proof -
  let ?T = "translate (field_map env) (AList.delete ''attachments'' (AList.delete ''id'' item), [])"
  obtain d where d: "fst (map_fields env item) = Inr d"
    and en_map: "map_of data ''tags'' = map_of d ''tags''"
    and en_keys: "''tags'' \<in> keys data \<longleftrightarrow> ''tags'' \<in> keys d"
    using assms(1)
  proof (cases rule: mapper_lookup_cases)
    case no_lookup
    with that show ?thesis by simp
  next
    case (merged d' cd)
    with assms(2) have "''tags'' \<notin> keys (AList.delete ''title'' cd)"
      by (auto simp: keys_delete)
    with merged(3) have "map_of data ''tags'' = map_of d' ''tags''"
      and "''tags'' \<in> keys data \<longleftrightarrow> ''tags'' \<in> keys d'"
      by (simp_all add: map_of_dict_update_notin keys_dict_update)
    with merged(1) that show ?thesis by simp
  qed
  from d obtain data2 where
    st: "set_tags (dict_get (fst ?T) ''tags'') (snd ?T) = Inr data2"
    and dd: "d = dict_update data2 (leftover env item)"
    by (auto simp: map_fields_unfold split: sum.splits)
  have nl: "''tags'' \<notin> keys (leftover env item)"
    by (simp add: keys_leftover)
  have joined: "map_of data ''tags'' = Some (JStr (space_joined ss))"
    if "dict_get item ''tags'' = JList (map JStr ss)" and "''tags'' \<notin> fst ` set (field_map env)"
  proof -
    have "dict_get (fst ?T) ''tags'' = dict_get item ''tags''"
      using that(2) by (rule tags_after_translate)
    with st that(1) have "data2 = dict_set ''tags'' (JStr (space_joined ss)) (snd ?T)"
      by (simp add: str_join_space)
    then have "map_of d ''tags'' = Some (JStr (space_joined ss))"
      using nl by (simp add: dd map_of_dict_update_notin map_of_dict_set)
    with en_map show ?thesis by simp
  qed
  have dropped: "''tags'' \<notin> keys data"
    if "\<forall>ts. dict_get item ''tags'' \<noteq> JList ts" and "''tags'' \<notin> snd ` set (field_map env)"
  proof -
    have "\<forall>ts. dict_get (fst ?T) ''tags'' \<noteq> JList ts"
    proof (cases "''tags'' \<in> fst ` set (field_map env)")
      case True
      then have "dict_get (fst ?T) ''tags'' = JNull" by (rule tags_after_translate_popped)
      then show ?thesis by simp
    next
      case False
      then have "dict_get (fst ?T) ''tags'' = dict_get item ''tags''"
        by (rule tags_after_translate)
      with that(1) show ?thesis by simp
    qed
    with st have "data2 = snd ?T" by (simp add: set_tags_not_list)
    moreover have "keys (snd ?T) \<subseteq> snd ` set (field_map env)"
      using translate_keys [of "field_map env" _ "[]"] by (simp add: keys_Nil)
    ultimately have "''tags'' \<notin> keys data2" using that(2) by auto
    with nl have "''tags'' \<notin> keys d" by (simp add: dd keys_dict_update)
    with en_keys show ?thesis by simp
  qed
  from joined dropped show ?thesis by blast
qed

text \<open>
  The claim as stated fails in its second half: a string under \<open>tags\<close> does not remain
  in the record.
\<close>

theorem tags_of_another_shape_are_dropped:
  "zotero_data_to_papis_data example_env [(''title'', JStr ''T''), (''tags'', JStr ''x'')]
   = (Inr [(''title'', JStr ''T'')], [(''title'', JStr ''T'')])"
  by (simp add: zotero_data_to_papis_data_def map_fields_def enrich_def dict_pop_def dict_get_def
        dict_set_def dict_update_def example_env_def example_field_map_def Let_def)

theorem tags_are_joined_or_dropped_witness:
  "fst (zotero_data_to_papis_data example_env
          [(''title'', JStr ''T''), (''tags'', JList [JStr ''a'', JStr ''b'', JStr ''c''])])
     = Inr [(''tags'', JStr ''a b c''), (''title'', JStr ''T'')]
   \<and> map_of [(''tags'', JStr ''a b c''), (''title'', JStr ''T'')] ''tags'' = Some (JStr ''a b c'')
   \<and> fst (zotero_data_to_papis_data example_env [(''title'', JStr ''T''), (''tags'', JInt 7)])
     = Inr [(''title'', JStr ''T'')]
   \<and> ''tags'' \<notin> keys [(''title'', JStr ''T'')]"
proof -
  let ?i1 = "[(''title'', JStr ''T''), (''tags'', JList [JStr ''a'', JStr ''b'', JStr ''c''])]"
  let ?d1 = "[(''tags'', JStr ''a b c''), (''title'', JStr ''T'')]"
  let ?i2 = "[(''title'', JStr ''T''), (''tags'', JInt 7)]"
  let ?d2 = "[(''title'', JStr ''T'')]"
  have m1: "map_fields example_env ?i1 = (Inr ?d1, ?d2)"
    by (simp add: map_fields_def dict_pop_def dict_get_def
        dict_set_def dict_update_def example_env_def example_field_map_def Let_def)
  have m2: "map_fields example_env ?i2 = (Inr ?d2, ?d2)"
    by (simp add: map_fields_def dict_pop_def dict_get_def
        dict_set_def dict_update_def example_env_def example_field_map_def Let_def)
  have r1: "fst (zotero_data_to_papis_data example_env ?i1) = Inr ?d1"
    by (simp add: zotero_data_to_papis_data_def m1 enrich_def dict_get_def)
  have r2: "fst (zotero_data_to_papis_data example_env ?i2) = Inr ?d2"
    by (simp add: zotero_data_to_papis_data_def m2 enrich_def dict_get_def)
  have t: "''tags'' \<notin> fst ` set (field_map example_env)"
    by (simp add: example_env_def example_field_map_def)
  have t': "''tags'' \<notin> snd ` set (field_map example_env)"
    by (simp add: example_env_def example_field_map_def)
  have l1: "\<forall>cd. lookup_made example_env ?i1 = Some (Inr cd) \<longrightarrow> ''tags'' \<notin> keys cd"
    by (simp add: lookup_made_def m1 dict_get_def)
  have l2: "\<forall>cd. lookup_made example_env ?i2 = Some (Inr cd) \<longrightarrow> ''tags'' \<notin> keys cd"
    by (simp add: lookup_made_def m2 dict_get_def)
  have g1: "dict_get ?i1 ''tags'' = JList (map JStr [''a'', ''b'', ''c''])"
    by (simp add: dict_get_def)
  have g2: "\<forall>ts. dict_get ?i2 ''tags'' \<noteq> JList ts"
    by (simp add: dict_get_def)
  show ?thesis
    using r1 r2 g1 g2 t t'
          tags_are_joined_or_dropped [OF r1 l1, of "[''a'', ''b'', ''c'']"]
          tags_are_joined_or_dropped [OF r2 l2, of "[]"]
    by simp
qed

subsection \<open>A leftover key equal to a canonical key\<close>

text \<open>
  Claim C6, as the code has it. The item, a dictionary, has a key \<open>S\<close> that the table
  translates to \<open>K\<close>, with a value that is not \<open>None\<close>, and a key equal to \<open>K\<close> that
  the table does not translate; the mapper returns a record. Then the record maps \<open>K\<close>
  to the value of the leftover key, provided \<open>K\<close> is none of \<open>id\<close>, \<open>attachments\<close>
  and \<open>tags\<close> (which are popped and not copied) and the dictionary returned by the
  lookup that takes place for the item, when one takes place, has no key \<open>K\<close> apart from
  \<open>title\<close>: the merge of that dictionary is the last write. The value was written over
  the translated one: when the table is a dictionary and \<open>S\<close> is neither \<open>id\<close> nor
  \<open>attachments\<close> (popped before the table is applied), the loop over the table has set
  \<open>K\<close> in \<open>data\<close> before \<open>data.update(item)\<close> runs.
\<close>

theorem leftover_key_overwrites_translated_value:
  assumes "fst (zotero_data_to_papis_data env item) = Inr data"
      and "distinct (map fst item)"
      and "(S, K) \<in> set (field_map env)" and "map_of item S = Some v" and "v \<noteq> JNull"
      and "K \<notin> fst ` set (field_map env)"
      and "K \<noteq> ''id''" and "K \<noteq> ''attachments''" and "K \<noteq> ''tags''"
      and "map_of item K = Some u"
      and "\<forall>cd. lookup_made env item = Some (Inr cd) \<longrightarrow> K \<notin> keys (AList.delete ''title'' cd)"
  shows "map_of data K = Some u
       \<and> (distinct (map fst (field_map env)) \<and> S \<noteq> ''id'' \<and> S \<noteq> ''attachments''
            \<longrightarrow> K \<in> keys (snd (translate (field_map env)
                          (AList.delete ''attachments'' (AList.delete ''id'' item), []))))"
proof -
  have lk: "map_of (leftover env item) K = Some u"
    using assms(6-10) by (simp add: map_of_leftover)
  have in_d: "map_of d K = Some u" if "fst (map_fields env item) = Inr d" for d
  proof -
    from that obtain data2 where "d = dict_update data2 (leftover env item)"
      by (auto simp: map_fields_unfold split: sum.splits)
    with assms(2) lk show ?thesis
      by (simp add: map_of_dict_update_in distinct_leftover)
  qed
  have last: "map_of data K = Some u"
    using assms(1)
  proof (cases rule: mapper_lookup_cases)
    case no_lookup
    then show ?thesis by (simp add: in_d)
  next
    case (merged d cd)
    with assms(11) have "K \<notin> keys (AList.delete ''title'' cd)" by blast
    with merged(1,3) show ?thesis by (simp add: map_of_dict_update_notin in_d)
  qed
  have first: "K \<in> keys (snd (translate (field_map env)
                          (AList.delete ''attachments'' (AList.delete ''id'' item), [])))"
    if "distinct (map fst (field_map env))" and "S \<noteq> ''id''" and "S \<noteq> ''attachments''"
  proof -
    have "map_of (AList.delete ''attachments'' (AList.delete ''id'' item)) S = Some v"
      using that(2,3) assms(4) by (simp add: delete_conv')
    with that(1) assms(3,5) show ?thesis
      by (intro translate_sets)
  qed
  from last first show ?thesis by blast
qed

text \<open>
  The claim as stated fails for the key \<open>doi\<close> itself: the leftover value triggers the
  lookup, and the \<open>doi\<close> of the dictionary it returns replaces the leftover value.
\<close>

theorem enrichment_overwrites_leftover_doi:
  "fst (zotero_data_to_papis_data
          (example_env\<lparr>doi_to_data := \<lambda>doi. Inr [(''doi'', JStr ''10.1000/abc'')]\<rparr>)
          [(''DOI'', JStr ''10.1000/XYZ''), (''doi'', JStr ''10.1000/ABC'')])
   = Inr [(''doi'', JStr ''10.1000/abc'')]"
  by (simp add: zotero_data_to_papis_data_def map_fields_def enrich_def dict_pop_def dict_get_def
        dict_set_def dict_update_def example_env_def example_field_map_def Let_def)

theorem leftover_key_overwrites_translated_value_witness:
  "fst (zotero_data_to_papis_data
          (example_env\<lparr>doi_to_data := \<lambda>doi. Inr [(''abstract'', JStr ''from Crossref'')]\<rparr>)
          [(''abstractNote'', JStr ''from Zotero''), (''abstract'', JStr ''already canonical'')])
     = Inr [(''abstract'', JStr ''already canonical'')]
   \<and> lookup_made
          (example_env\<lparr>doi_to_data := \<lambda>doi. Inr [(''abstract'', JStr ''from Crossref'')]\<rparr>)
          [(''abstractNote'', JStr ''from Zotero''), (''abstract'', JStr ''already canonical'')]
     = None
   \<and> snd (translate (field_map example_env)
        (AList.delete ''attachments'' (AList.delete ''id''
           [(''abstractNote'', JStr ''from Zotero''), (''abstract'', JStr ''already canonical'')]), []))
     = [(''abstract'', JStr ''from Zotero'')]
   \<and> map_of [(''abstract'', JStr ''already canonical'')] ''abstract''
     = Some (JStr ''already canonical'')"
proof -
  let ?env = "example_env\<lparr>doi_to_data := \<lambda>doi. Inr [(''abstract'', JStr ''from Crossref'')]\<rparr>"
  let ?item = "[(''abstractNote'', JStr ''from Zotero''), (''abstract'', JStr ''already canonical'')]"
  have f: "field_map ?env = example_field_map" by (simp add: example_env_def)
  have m: "map_fields ?env ?item
             = (Inr [(''abstract'', JStr ''already canonical'')],
                [(''abstract'', JStr ''already canonical'')])"
    by (simp add: map_fields_def f dict_pop_def dict_get_def
        dict_set_def dict_update_def example_field_map_def Let_def)
  have r: "fst (zotero_data_to_papis_data ?env ?item)
             = Inr [(''abstract'', JStr ''already canonical'')]"
    by (simp add: zotero_data_to_papis_data_def m enrich_def dict_get_def)
  have lm: "lookup_made ?env ?item = None"
    by (simp add: lookup_made_def m dict_get_def)
  have tr: "snd (translate (field_map example_env)
        (AList.delete ''attachments'' (AList.delete ''id'' ?item), []))
     = [(''abstract'', JStr ''from Zotero'')]"
    by (simp add: dict_pop_def dict_get_def dict_set_def example_env_def example_field_map_def)
  have h: "distinct (map fst ?item)"
      "(''abstractNote'', ''abstract'') \<in> set (field_map ?env)"
      "map_of ?item ''abstractNote'' = Some (JStr ''from Zotero'')" "JStr ''from Zotero'' \<noteq> JNull"
      "''abstract'' \<notin> fst ` set (field_map ?env)"
      "''abstract'' \<noteq> ''id''" "''abstract'' \<noteq> ''attachments''" "''abstract'' \<noteq> ''tags''"
      "map_of ?item ''abstract'' = Some (JStr ''already canonical'')"
    by (simp_all add: f example_field_map_def)
  have l: "\<forall>cd. lookup_made ?env ?item = Some (Inr cd)
              \<longrightarrow> ''abstract'' \<notin> keys (AList.delete ''title'' cd)"
    by (simp add: lm)
  have dt: "distinct (map fst (field_map ?env))"
    by (simp add: f example_field_map_def)
  show ?thesis
    using r lm tr dt leftover_key_overwrites_translated_value
            [OF r h(1) h(2) h(3) h(4) h(5) h(6) h(7) h(8) h(9) l]
    by (simp add: f)
qed

subsection \<open>Calling the mapper twice\<close>

text \<open>
  Claim C9, as the code has it. The record depends on the environment only through the
  table, the lookup and \<open>str\<close>: two environments that agree on these give the same
  outcome for the same item. The mapper changes the dictionary it is given: after the call
  the item holds its leftover entries only (\<open>id\<close>, \<open>attachments\<close>, \<open>tags\<close> and every
  key of the table are gone). A second call on that dictionary therefore returns the
  leftover entries, enriched, and leaves the dictionary as it is.
\<close>

theorem mapper_consumes_its_argument:
  assumes "distinct (map fst item)"
  shows "snd (zotero_data_to_papis_data env item) = leftover env item
       \<and> zotero_data_to_papis_data env (leftover env item)
           = (enrich env (leftover env item), leftover env item)
       \<and> (field_map env' = field_map env \<and> doi_to_data env' = doi_to_data env
            \<and> py_repr env' = py_repr env
            \<longrightarrow> zotero_data_to_papis_data env' item = zotero_data_to_papis_data env item)"
proof -
  have "zotero_data_to_papis_data env' item = zotero_data_to_papis_data env item"
    if "field_map env' = field_map env" "doi_to_data env' = doi_to_data env"
       "py_repr env' = py_repr env"
  proof -
    have m: "map_fields env' item = map_fields env item"
      using that(1) by (simp add: map_fields_def)
    have s: "py_str env' x = py_str env x" for x
      using that(3) by (cases x) simp_all
    have en: "enrich env' d = enrich env d" for d
      by (simp only: enrich_def s that(2))
    show ?thesis by (simp only: zotero_data_to_papis_data_def m en)
  qed
  moreover have "zotero_data_to_papis_data env (leftover env item)
           = (enrich env (leftover env item), leftover env item)"
    using map_fields_leftover [OF assms, of env] by (simp add: zotero_data_to_papis_data_def)
  ultimately show ?thesis by (simp add: snd_mapper)
qed

text \<open>
  The claim as stated fails: the first call on an item with a title and tags returns a
  record with both and leaves the title in the item; the second call on the same
  dictionary returns a record without tags.
\<close>

theorem second_call_returns_another_record:
  "zotero_data_to_papis_data example_env [(''title'', JStr ''T''), (''tags'', JList [JStr ''x''])]
     = (Inr [(''tags'', JStr ''x''), (''title'', JStr ''T'')], [(''title'', JStr ''T'')])
   \<and> zotero_data_to_papis_data example_env [(''title'', JStr ''T'')]
     = (Inr [(''title'', JStr ''T'')], [(''title'', JStr ''T'')])
   \<and> fst (zotero_data_to_papis_data example_env
          (snd (zotero_data_to_papis_data example_env
                  [(''title'', JStr ''T''), (''tags'', JList [JStr ''x''])])))
     \<noteq> fst (zotero_data_to_papis_data example_env
              [(''title'', JStr ''T''), (''tags'', JList [JStr ''x''])])"
proof -
  have first: "zotero_data_to_papis_data example_env
                 [(''title'', JStr ''T''), (''tags'', JList [JStr ''x''])]
     = (Inr [(''tags'', JStr ''x''), (''title'', JStr ''T'')], [(''title'', JStr ''T'')])"
    by (simp add: zotero_data_to_papis_data_def map_fields_def enrich_def dict_pop_def dict_get_def
        dict_set_def dict_update_def example_env_def example_field_map_def Let_def)
  have second: "zotero_data_to_papis_data example_env [(''title'', JStr ''T'')]
     = (Inr [(''title'', JStr ''T'')], [(''title'', JStr ''T'')])"
    by (simp add: zotero_data_to_papis_data_def map_fields_def enrich_def dict_pop_def dict_get_def
        dict_set_def dict_update_def example_env_def example_field_map_def Let_def)
  show ?thesis by (simp add: first second)
qed

theorem mapper_consumes_its_argument_witness:
  "distinct (map fst [(''title'', JStr ''T''), (''DOI'', JStr ''10.1000/182''),
                      (''tags'', JList [JStr ''x''])])
   \<and> snd (zotero_data_to_papis_data example_env
        [(''title'', JStr ''T''), (''DOI'', JStr ''10.1000/182''), (''tags'', JList [JStr ''x''])])
     = [(''title'', JStr ''T'')]
   \<and> zotero_data_to_papis_data example_env [(''title'', JStr ''T'')]
     = (Inr [(''title'', JStr ''T'')], [(''title'', JStr ''T'')])
   \<and> zotero_data_to_papis_data (example_env\<lparr>add_run := \<lambda>files data. Some TimeoutError\<rparr>)
        [(''title'', JStr ''T''), (''DOI'', JStr ''10.1000/182''), (''tags'', JList [JStr ''x''])]
     = zotero_data_to_papis_data example_env
        [(''title'', JStr ''T''), (''DOI'', JStr ''10.1000/182''), (''tags'', JList [JStr ''x''])]"
proof -
  let ?item = "[(''title'', JStr ''T''), (''DOI'', JStr ''10.1000/182''),
                (''tags'', JList [JStr ''x''])]"
  have d: "distinct (map fst ?item)" by simp
  have l: "leftover example_env ?item = [(''title'', JStr ''T'')]"
    by (simp add: leftover_def example_env_def example_field_map_def)
  have e: "enrich example_env [(''title'', JStr ''T'')] = Inr [(''title'', JStr ''T'')]"
    by (simp add: enrich_def dict_get_def)
  show ?thesis
    using d mapper_consumes_its_argument
            [OF d, of example_env "example_env\<lparr>add_run := \<lambda>files data. Some TimeoutError\<rparr>"]
    by (simp add: l e)
qed

subsection \<open>The response of \<open>saveItems\<close>\<close>

text \<open>
  Downloading attachments touches neither the calls of \<open>papis.commands.add.run\<close> nor the
  response; one item that is processed to its end adds exactly one call, with the record
  the mapper returns for it.
\<close>

lemma attachment_step_frame:
  "attachment_step env a files w = (r, w') \<Longrightarrow> add_calls w' = add_calls w \<and> wfile w' = wfile w"
  by (auto simp: attachment_step_def Let_def split: json.splits if_splits sum.splits)

lemma attachments_loop_frame:
  "attachments_loop env atts files w = (r, w') \<Longrightarrow> add_calls w' = add_calls w \<and> wfile w' = wfile w"
proof (induction atts arbitrary: files w)
  case Nil
  then show ?case by simp
next
  case (Cons a atts)
  obtain r1 w1 where s: "attachment_step env a files w = (r1, w1)"
    by (cases "attachment_step env a files w")
  from attachment_step_frame [OF s] have f: "add_calls w1 = add_calls w \<and> wfile w1 = wfile w" .
  show ?case
  proof (cases r1)
    case (Inl e)
    with Cons.prems s f show ?thesis by simp
  next
    case (Inr files')
    with Cons.prems s have "attachments_loop env atts files' w1 = (r, w')" by simp
    from Cons.IH [OF this] f show ?thesis by simp
  qed
qed

lemma add_item_call:
  assumes "add_item env item w = (Inr u, w')"
  shows "\<exists>it files data. item = JObj it
           \<and> fst (zotero_data_to_papis_data env it) = Inr data
           \<and> add_calls w' = add_calls w @ [(files, data)]
           \<and> wfile w' = wfile w"
proof (cases item)
  case (JObj it)
  let ?atts = "dict_get it ''attachments''"
  from assms JObj obtain has where h: "has_attachments ?atts = Inr has"
    by (auto simp: add_item_def split: sum.splits)
  define fw where "fw = (if has then
                        (case py_iter ?atts of
                           Inl e \<Rightarrow> (Inl e, w)
                         | Inr atts \<Rightarrow> attachments_loop env atts [] w)
                      else (Inr [], w))"
  obtain r1 w1 where fw1: "fw = (r1, w1)" by (cases fw)
  have frame: "add_calls w1 = add_calls w \<and> wfile w1 = wfile w"
    using fw1 attachments_loop_frame [of env _ "[]" w r1 w1]
    by (auto simp: fw_def split: if_splits sum.splits)
  from assms JObj h fw1 obtain files data where
    "r1 = Inr files" "fst (zotero_data_to_papis_data env it) = Inr data"
    "w' = w1\<lparr>add_calls := add_calls w1 @ [(files, data)]\<rparr>"
    by (auto simp: add_item_def fw_def [symmetric] Let_def split: sum.splits option.splits)
  with frame JObj show ?thesis by auto
qed (use assms in \<open>auto simp: add_item_def\<close>)

lemma items_loop_calls:
  assumes "items_loop env items w = (Inr u, w')"
  shows "\<exists>calls. add_calls w' = add_calls w @ calls
           \<and> list_all2 (\<lambda>item call. \<exists>it. item = JObj it
                \<and> fst (zotero_data_to_papis_data env it) = Inr (snd call)) items calls
           \<and> wfile w' = wfile w"
  using assms
proof (induction items arbitrary: w)
  case Nil
  then show ?case by simp
next
  case (Cons item items)
  obtain r1 w1 where s: "add_item env item w = (r1, w1)" by (cases "add_item env item w")
  with Cons.prems obtain u1 where r1: "r1 = Inr u1" and rest: "items_loop env items w1 = (Inr u, w')"
    by (cases r1) auto
  from add_item_call [OF s [unfolded r1]] obtain it files data where
    c: "item = JObj it" "fst (zotero_data_to_papis_data env it) = Inr data"
       "add_calls w1 = add_calls w @ [(files, data)]" "wfile w1 = wfile w"
    by blast
  from Cons.IH [OF rest] obtain calls where
    cs: "add_calls w' = add_calls w1 @ calls"
        "list_all2 (\<lambda>item call. \<exists>it. item = JObj it
                \<and> fst (zotero_data_to_papis_data env it) = Inr (snd call)) items calls"
        "wfile w' = wfile w1"
    by blast
  have "add_calls w' = add_calls w @ ((files, data) # calls)"
    using c cs by simp
  moreover have "list_all2 (\<lambda>item call. \<exists>it. item = JObj it
                \<and> fst (zotero_data_to_papis_data env it) = Inr (snd call))
                   (item # items) ((files, data) # calls)"
    using c cs by simp
  moreover have "wfile w' = wfile w" using c cs by simp
  ultimately show ?case by blast
qed

text \<open>
  Claim C8. The body decodes to an object whose \<open>items\<close> is a list, and the loop over
  the items ends without an exception. Then \<open>add\<close> ends without an exception; every item
  is an object, and \<open>papis.commands.add.run\<close> has been called once per item, in the order
  of the list, each time with the record the mapper returns for that item; the response
  consists of the status 201, the headers \<open>X-Zotero-Version\<close> and
  \<open>X-Zotero-Connector-API-Version\<close>, the end of the headers and the bytes read from the
  request, unchanged, and of nothing else.
\<close>

theorem add_echoes_body_after_all_items:
  assumes "read_input env req = Inr rawinput"
      and "json_loads env rawinput = Inr (JObj d)"
      and "map_of d ''items'' = Some (JList items)"
      and "items_loop env items w = (Inr u, w1)"
  shows "add env req w =
           (Inr (), w1\<lparr>wfile := wfile w @
              [SendResponse 201,
               SendHeader ''X-Zotero-Version'' ''5.0.25'',
               SendHeader ''X-Zotero-Connector-API-Version'' ''2'',
               EndHeaders,
               Write rawinput]\<rparr>)
       \<and> (\<exists>calls. add_calls w1 = add_calls w @ calls
             \<and> list_all2 (\<lambda>item call. \<exists>it. item = JObj it
                  \<and> fst (zotero_data_to_papis_data env it) = Inr (snd call)) items calls)"
proof -
  from items_loop_calls [OF assms(4)] obtain calls where
    c: "add_calls w1 = add_calls w @ calls"
       "list_all2 (\<lambda>item call. \<exists>it. item = JObj it
                  \<and> fst (zotero_data_to_papis_data env it) = Inr (snd call)) items calls"
       "wfile w1 = wfile w"
    by blast
  have "add env req w =
           (Inr (), w1\<lparr>wfile := wfile w @
              [SendResponse 201,
               SendHeader ''X-Zotero-Version'' ''5.0.25'',
               SendHeader ''X-Zotero-Connector-API-Version'' ''2'',
               EndHeaders,
               Write rawinput]\<rparr>)"
    using assms c(3)
    by (simp add: add_def set_zotero_headers_def ZOTERO_VERSION_def
          ZOTERO_CONNECTOR_API_VERSION_def str_int_def)
  with c show ?thesis by blast
qed

theorem add_echoes_body_after_all_items_witness:
  "read_input example_env \<lparr>content_length = Some ''136'', rfile = two_body\<rparr> = Inr two_body
   \<and> json_loads example_env two_body = Inr two_data
   \<and> add example_env \<lparr>content_length = Some ''136'', rfile = two_body\<rparr> world0 =
       (Inr (),
        \<lparr>fetched = [JStr ''http://example.org/a.pdf''],
         tmpfiles = [(''/tmp/tmp0.pdf'', ''%PDF-1.4'')],
         add_calls = [([''/tmp/tmp0.pdf''], [(''title'', JStr ''A'')]),
                      ([], [(''tags'', JStr ''x y''), (''title'', JStr ''B'')])],
         wfile = [SendResponse 201,
                  SendHeader ''X-Zotero-Version'' ''5.0.25'',
                  SendHeader ''X-Zotero-Connector-API-Version'' ''2'',
                  EndHeaders,
                  Write two_body]\<rparr>)"
proof -
  let ?a = "[(''title'', JStr ''A''),
             (''attachments'',
              JList [JObj [(''mimeType'', JStr ''application/pdf''),
                           (''url'', JStr ''http://example.org/a.pdf'')]])]"
  let ?b = "[(''title'', JStr ''B''), (''tags'', JList [JStr ''x'', JStr ''y''])]"
  let ?w1 = "\<lparr>fetched = [JStr ''http://example.org/a.pdf''],
              tmpfiles = [(''/tmp/tmp0.pdf'', ''%PDF-1.4'')],
              add_calls = [([''/tmp/tmp0.pdf''], [(''title'', JStr ''A'')]),
                           ([], [(''tags'', JStr ''x y''), (''title'', JStr ''B'')])],
              wfile = []\<rparr>"
  have r: "read_input example_env \<lparr>content_length = Some ''136'', rfile = two_body\<rparr>
             = Inr two_body"
    by (simp add: read_input_def rfile_read_def example_env_def example_int_def two_body_def)
  have j: "json_loads example_env two_body = Inr (JObj [(''items'', JList [JObj ?a, JObj ?b])])"
    by (simp add: example_env_def two_data_def example_body_def batch_body_def two_body_def)
  have m: "map_of [(''items'', JList [JObj ?a, JObj ?b])] ''items''
             = Some (JList [JObj ?a, JObj ?b])"
    by simp
  have za: "zotero_data_to_papis_data example_env ?a
              = (Inr [(''title'', JStr ''A'')], [(''title'', JStr ''A'')])"
    by (simp add: zotero_data_to_papis_data_def map_fields_def enrich_def dict_pop_def dict_get_def
        dict_set_def dict_update_def example_env_def example_field_map_def Let_def)
  have zb: "zotero_data_to_papis_data example_env ?b
              = (Inr [(''tags'', JStr ''x y''), (''title'', JStr ''B'')], [(''title'', JStr ''B'')])"
    by (simp add: zotero_data_to_papis_data_def map_fields_def enrich_def dict_pop_def dict_get_def
        dict_set_def dict_update_def example_env_def example_field_map_def Let_def)
  have e: "urlopen_read example_env (JStr ''http://example.org/a.pdf'') = Inr ''%PDF-1.4''"
      "mktemp example_env 0 = ''/tmp/tmp0.pdf''" "is_pdf example_env ''%PDF-1.4''"
      "add_run example_env [''/tmp/tmp0.pdf''] [(''title'', JStr ''A'')] = None"
      "add_run example_env [] [(''tags'', JStr ''x y''), (''title'', JStr ''B'')] = None"
    by (simp_all add: example_env_def)
  have il: "items_loop example_env [JObj ?a, JObj ?b] world0 = (Inr (), ?w1)"
    by (simp add: add_item_def has_attachments_def attachment_step_def dict_get_def za zb e
          world0_def Let_def)
  show ?thesis
    using r j add_echoes_body_after_all_items [OF r j m il]
    by (simp add: world0_def two_data_def)
qed

end
